theory Spec2Isabelle
  imports Main "HOL-Library.AList" "HOL-Library.Monad_Syntax"
begin

section \<open>Python values, strings and dictionaries\<close>

text \<open>
  The command-line front end \<^verbatim>\<open>md2conf/__main__.py\<close> is dynamically typed: an
  attribute of the argument namespace holds \<^verbatim>\<open>None\<close>, a boolean, a string, a list
  of strings, a dictionary from strings to strings or a \<^verbatim>\<open>pathlib.Path\<close>.
  A Python \<^verbatim>\<open>dict\<close> keeps its keys in insertion order and overwrites the value of
  a key that is already present in place: this is an association list under
  \<^const>\<open>AList.update\<close>.
\<close>

type_synonym pydict = "(string \<times> string) list"

datatype pyval =
    PyNone
  | PyBool bool
  | PyStr string
  | PyList "string list"
  | PyDict pydict
  | PyPath string

fun truthy :: "pyval \<Rightarrow> bool" where
  "truthy PyNone = False"
| "truthy (PyBool b) = b"
| "truthy (PyStr s) = (s \<noteq> [])"
| "truthy (PyList xs) = (xs \<noteq> [])"
| "truthy (PyDict d) = (d \<noteq> [])"
| "truthy (PyPath p) = True"

text \<open>
  \<^verbatim>\<open>x.split("=")\<close> with a one-character separator: the string is cut at
  \<^emph>\<open>every\<close> occurrence of the separator (no \<^verbatim>\<open>maxsplit\<close> is given), so the
  result has one more piece than the string has separators; the pieces may be empty.
\<close>

fun str_split :: "string \<Rightarrow> char \<Rightarrow> string list" where
  "str_split [] sep = [[]]"
| "str_split (c # cs) sep =
     (if c = sep then [] # str_split cs sep
      else (case str_split cs sep of
              [] \<Rightarrow> [[c]]
            | piece # pieces \<Rightarrow> (c # piece) # pieces))"

text \<open>
  \<^verbatim>\<open>str.lower()\<close> and \<^verbatim>\<open>str.upper()\<close> on the ASCII letters (the only cased
  characters that occur in the level names they are applied to).
\<close>

definition ascii_uppercase :: string where
  "ascii_uppercase = ''ABCDEFGHIJKLMNOPQRSTUVWXYZ''"

definition ascii_lowercase :: string where
  "ascii_lowercase = ''abcdefghijklmnopqrstuvwxyz''"

definition str_lower :: "string \<Rightarrow> string" where
  "str_lower s =
     map (\<lambda>c. case map_of (zip ascii_uppercase ascii_lowercase) c of
                 Some l \<Rightarrow> l | None \<Rightarrow> c) s"

definition str_upper :: "string \<Rightarrow> string" where
  "str_upper s =
     map (\<lambda>c. case map_of (zip ascii_lowercase ascii_uppercase) c of
                 Some u \<Rightarrow> u | None \<Rightarrow> c) s"

text \<open>
  \<^verbatim>\<open>dict(iterable)\<close>: every element of the iterable must be a sequence of length
  two, a key and a value; the first element of any other length raises
  \<^verbatim>\<open>ValueError\<close>. Pairs are inserted from left to right.
\<close>

datatype value_error = ValueError

fun dict_update :: "pydict \<Rightarrow> string list list \<Rightarrow> value_error + pydict" where
  "dict_update d [] = Inr d"
| "dict_update d (elem # elems) =
     (case elem of
        [k, v] \<Rightarrow> dict_update (AList.update k v d) elems
      | _ \<Rightarrow> Inl ValueError)"

definition dict :: "string list list \<Rightarrow> value_error + pydict" where
  "dict elems = dict_update [] elems"

section \<open>The argument namespace\<close>

text \<open>
  \<^verbatim>\<open>class Arguments(argparse.Namespace)\<close> only annotates its attributes, so a fresh
  \<^verbatim>\<open>Arguments()\<close> has none. Reading a missing attribute raises
  \<^verbatim>\<open>AttributeError\<close>: \<open>getattr\<close> returns \<open>None\<close> there.
\<close>

type_synonym namespace = "(string \<times> pyval) list"

definition Arguments :: namespace where
  "Arguments = []"

definition hasattr :: "namespace \<Rightarrow> string \<Rightarrow> bool" where
  "hasattr ns name = (map_of ns name \<noteq> None)"

definition getattr :: "namespace \<Rightarrow> string \<Rightarrow> pyval option" where
  "getattr ns name = map_of ns name"

definition setattr :: "namespace \<Rightarrow> string \<Rightarrow> pyval \<Rightarrow> namespace" where
  "setattr ns name v = AList.update name v ns"

section \<open>The fragment of argparse the program uses\<close>

text \<open>
  An \<^verbatim>\<open>argparse.Action\<close> as \<^verbatim>\<open>add_argument\<close> creates it. \<open>NargsNone\<close> is the
  default arity of a storing action (exactly one argument string), \<open>NargsZero\<close> the
  arity of the constant-storing, help and version actions, \<open>NargsStar\<close> is
  \<^verbatim>\<open>nargs="*"\<close>. A default of \<open>SUPPRESS\<close> puts no attribute into the namespace.
\<close>

datatype nargs_spec = NargsNone | NargsZero | NargsStar

datatype default_spec = Default pyval | SUPPRESS

datatype action_class =
    StoreAction
  | StoreConstAction
  | HelpAction
  | VersionAction
  | KwargsAppendAction

record Action =
  option_strings :: "string list"
  dest :: string
  nargs :: nargs_spec
  const_value :: pyval
  default_value :: default_spec
  choices :: "string list option"
  required :: bool
  action_class :: action_class

text \<open>
  How the parse of a command line can stop without a namespace:
  \<^verbatim>\<open>ArgumentError(action, message)\<close> (caught by \<^verbatim>\<open>parse_known_args\<close> and turned
  into \<^verbatim>\<open>parser.error\<close>, exit status 2), a direct \<^verbatim>\<open>parser.error(message)\<close>
  (exit status 2), or a help or version action that prints and exits with status 0.
  A message is kept as the fragments of its format string: literal text, and the
  values that Python renders into it.
\<close>

datatype fragment = Text string | Formatted pyval

datatype parse_stop =
    ArgumentError "string list" "fragment list"
  | ParserError "fragment list"
  | PrintHelpExit
  | PrintVersionExit

subsection \<open>The custom action of the header flag\<close>

text \<open>
  \<^verbatim>\<open>KwargsAppendAction.__call__\<close>: split every value at \<^verbatim>\<open>=\<close>, build a dictionary
  from the pieces, and store it under the action's destination. A
  \<^verbatim>\<open>ValueError\<close> of \<^verbatim>\<open>dict\<close> becomes an \<^verbatim>\<open>ArgumentError\<close> whose message
  renders the whole list of values and the expected format; \<^verbatim>\<open>setattr\<close> is not
  reached then.
\<close>

definition KwargsAppendAction_call ::
  "Action \<Rightarrow> namespace \<Rightarrow> string list \<Rightarrow> parse_stop + namespace" where
  \<open>KwargsAppendAction_call self namespace values =
     (case dict (map (\<lambda>x. str_split x CHR ''='') values) of
        Inl ValueError \<Rightarrow>
          Inl (ArgumentError (option_strings self)
                 [Text ''Could not parse argument "'', Formatted (PyList values),
                  Text ''". It should follow the format: k1=v1 k2=v2 ...''])
      | Inr d \<Rightarrow> Inr (setattr namespace (dest self) (PyDict d)))\<close>

subsection \<open>Declaring arguments\<close>

text \<open>
  \<^verbatim>\<open>add_argument\<close> derives the destination of an optional argument from its first
  long option string (or its first option string when none is long): the leading
  dashes are stripped and every other dash becomes an underscore. An explicit
  \<^verbatim>\<open>dest=\<close> overrides this.
\<close>

definition is_long_option :: "string \<Rightarrow> bool" where
  "is_long_option s = (case s of c1 # c2 # _ \<Rightarrow> c2 = CHR ''-'' | _ \<Rightarrow> False)"

definition infer_dest :: "string list \<Rightarrow> string" where
  "infer_dest flags =
     (let dest_option_string =
            (case filter is_long_option flags of
               long # _ \<Rightarrow> long
             | [] \<Rightarrow> (case flags of first # _ \<Rightarrow> first | [] \<Rightarrow> []))
      in map (\<lambda>c. if c = CHR ''-'' then CHR ''_'' else c)
             (dropWhile (\<lambda>c. c = CHR ''-'') dest_option_string))"

definition get_dest :: "string list \<Rightarrow> string option \<Rightarrow> string" where
  "get_dest flags explicit_dest =
     (case explicit_dest of Some d \<Rightarrow> d | None \<Rightarrow> infer_dest flags)"

text \<open>
  The action classes behind \<^verbatim>\<open>action=\<close>: \<^verbatim>\<open>store\<close> (the default),
  \<^verbatim>\<open>store_const\<close>, \<^verbatim>\<open>store_true\<close> and \<^verbatim>\<open>store_false\<close> (constant-storing
  actions with the constants \<^verbatim>\<open>True\<close> and \<^verbatim>\<open>False\<close>), \<^verbatim>\<open>version\<close>,
  \<^verbatim>\<open>help\<close> (added by the \<^verbatim>\<open>ArgumentParser\<close> constructor itself), the
  program's own \<^verbatim>\<open>KwargsAppendAction\<close> with \<^verbatim>\<open>nargs="*"\<close>, and a positional
  argument, which is a required storing action without option strings.
\<close>

definition store ::
  "string list \<Rightarrow> string option \<Rightarrow> pyval \<Rightarrow> string list option \<Rightarrow> Action" where
  "store flags explicit_dest dflt chs =
     \<lparr>option_strings = flags, dest = get_dest flags explicit_dest, nargs = NargsNone,
      const_value = PyNone, default_value = Default dflt, choices = chs,
      required = False, action_class = StoreAction\<rparr>"

definition positional :: "string \<Rightarrow> Action" where
  "positional name =
     \<lparr>option_strings = [], dest = name, nargs = NargsNone,
      const_value = PyNone, default_value = Default PyNone, choices = None,
      required = True, action_class = StoreAction\<rparr>"

definition store_const ::
  "string list \<Rightarrow> string option \<Rightarrow> pyval \<Rightarrow> pyval \<Rightarrow> Action" where
  "store_const flags explicit_dest c dflt =
     \<lparr>option_strings = flags, dest = get_dest flags explicit_dest, nargs = NargsZero,
      const_value = c, default_value = Default dflt, choices = None,
      required = False, action_class = StoreConstAction\<rparr>"

definition store_true :: "string list \<Rightarrow> string option \<Rightarrow> pyval \<Rightarrow> Action" where
  "store_true flags explicit_dest dflt =
     store_const flags explicit_dest (PyBool True) dflt"

definition store_false :: "string list \<Rightarrow> string option \<Rightarrow> pyval \<Rightarrow> Action" where
  "store_false flags explicit_dest dflt =
     store_const flags explicit_dest (PyBool False) dflt"

definition help_action :: Action where
  "help_action =
     \<lparr>option_strings = [''-h'', ''--help''], dest = ''help'', nargs = NargsZero,
      const_value = PyNone, default_value = SUPPRESS, choices = None,
      required = False, action_class = HelpAction\<rparr>"

definition version_action :: "string list \<Rightarrow> Action" where
  "version_action flags =
     \<lparr>option_strings = flags, dest = ''version'', nargs = NargsZero,
      const_value = PyNone, default_value = SUPPRESS, choices = None,
      required = False, action_class = VersionAction\<rparr>"

definition kwargs_append :: "string list \<Rightarrow> Action" where
  "kwargs_append flags =
     \<lparr>option_strings = flags, dest = infer_dest flags, nargs = NargsStar,
      const_value = PyNone, default_value = Default PyNone, choices = None,
      required = False, action_class = KwargsAppendAction\<rparr>"

subsection \<open>The levels of the logging module\<close>

text \<open>
  The level constants of Python's \<^verbatim>\<open>logging\<close> module and its table
  \<^verbatim>\<open>_levelToName\<close>; \<^verbatim>\<open>WARN\<close> is an alias of \<^verbatim>\<open>WARNING\<close>, whose name is
  \<^verbatim>\<open>"WARNING"\<close>. \<^verbatim>\<open>getLevelName\<close> of a number outside the table is
  \<^verbatim>\<open>"Level %s" % level\<close>.
\<close>

definition logging_CRITICAL :: nat where "logging_CRITICAL = 50"
definition logging_FATAL :: nat where "logging_FATAL = logging_CRITICAL"
definition logging_ERROR :: nat where "logging_ERROR = 40"
definition logging_WARNING :: nat where "logging_WARNING = 30"
definition logging_WARN :: nat where "logging_WARN = logging_WARNING"
definition logging_INFO :: nat where "logging_INFO = 20"
definition logging_DEBUG :: nat where "logging_DEBUG = 10"
definition logging_NOTSET :: nat where "logging_NOTSET = 0"

definition levelToName :: "(nat \<times> string) list" where
  "levelToName =
     [(logging_CRITICAL, ''CRITICAL''), (logging_ERROR, ''ERROR''),
      (logging_WARNING, ''WARNING''), (logging_INFO, ''INFO''),
      (logging_DEBUG, ''DEBUG''), (logging_NOTSET, ''NOTSET'')]"

function str_of_nat :: "nat \<Rightarrow> string" where
  "str_of_nat n =
     (if n < 10 then [char_of (48 + n)]
      else str_of_nat (n div 10) @ [char_of (48 + n mod 10)])"
  by pat_completeness auto
termination
  by (relation "measure id") auto

definition getLevelName :: "nat \<Rightarrow> string" where
  "getLevelName level =
     (case map_of levelToName level of
        Some name \<Rightarrow> name
      | None \<Rightarrow> ''Level '' @ str_of_nat level)"

text \<open>
  \<^verbatim>\<open>getattr(logging, name, default)\<close> on the level constants of the module. The
  other attributes of the module are not modelled: the name looked up is the
  upper-cased log level, which the parser restricts to its choices and its default.
\<close>

definition logging_levels :: "(string \<times> nat) list" where
  "logging_levels =
     [(''CRITICAL'', logging_CRITICAL), (''FATAL'', logging_FATAL),
      (''ERROR'', logging_ERROR), (''WARNING'', logging_WARNING),
      (''WARN'', logging_WARN), (''INFO'', logging_INFO),
      (''DEBUG'', logging_DEBUG), (''NOTSET'', logging_NOTSET)]"

definition logging_getattr :: "string \<Rightarrow> nat \<Rightarrow> nat" where
  "logging_getattr name dflt =
     (case map_of logging_levels name of Some level \<Rightarrow> level | None \<Rightarrow> dflt)"

subsection \<open>The parser of \<^verbatim>\<open>main\<close>\<close>

text \<open>
  The actions of the parser, in the order of the source: the help action of
  \<^verbatim>\<open>argparse.ArgumentParser()\<close>, then one action for each \<^verbatim>\<open>add_argument\<close>.
\<close>

definition loglevel_choices :: "string list" where
  "loglevel_choices =
     map (\<lambda>level. str_lower (getLevelName level))
       [logging_DEBUG, logging_INFO, logging_WARN, logging_ERROR, logging_CRITICAL]"

definition parser_actions :: "Action list" where
  "parser_actions =
     [help_action,
      version_action [''--version''],
      positional ''mdpath'',
      store [''-d'', ''--domain''] None PyNone None,
      store [''-p'', ''--path''] None PyNone None,
      store [''-u'', ''--username''] None PyNone None,
      store [''-a'', ''--apikey''] None PyNone None,
      store [''-s'', ''--space''] None PyNone None,
      store [''-l'', ''--loglevel''] None (PyStr (getLevelName logging_INFO))
        (Some loglevel_choices),
      store [''-r''] (Some ''root_page'') PyNone None,
      store [''--generated-by''] None
        (PyStr ''This page has been generated with a tool.'') None,
      store_const [''--no-generated-by''] (Some ''generated_by'') PyNone PyNone,
      store_true [''--render-mermaid''] (Some ''render_mermaid'') (PyBool True),
      store_false [''--no-render-mermaid''] (Some ''render_mermaid'') (PyBool True),
      store [''--render-mermaid-format''] (Some ''diagram_output_format'')
        (PyStr ''png'') (Some [''png'', ''svg'']),
      store_true [''--heading-anchors''] None (PyBool False),
      store_true [''--ignore-invalid-url''] None (PyBool False),
      store_true [''--local''] None (PyBool False),
      kwargs_append [''--headers''],
      store_true [''--webui-links''] None (PyBool False)]"

subsection \<open>Parsing a command line\<close>

text \<open>
  The command line is taken as \<^verbatim>\<open>_parse_known_args\<close> groups it: the argument
  strings before the first option string are \<open>Positional\<close>, and every occurrence of
  an option string comes with the argument strings that follow it up to the next
  option string. Option strings are the declared ones (argparse resolves an
  unambiguous prefix of a long option to the option itself before it looks the action
  up; the forms \<^verbatim>\<open>--flag=value\<close> and \<^verbatim>\<open>--\<close> are not part of the fragment).
\<close>

datatype cli_item = Positional string | Optional string "string list"

datatype arg_values = OneValue string | ValueList "string list"

fun to_pyval :: "arg_values \<Rightarrow> pyval" where
  "to_pyval (OneValue s) = PyStr s"
| "to_pyval (ValueList xs) = PyList xs"

text \<open>Iterating a list gives its elements, iterating a string its characters.\<close>

fun iterate :: "arg_values \<Rightarrow> string list" where
  "iterate (OneValue s) = map (\<lambda>c. [c]) s"
| "iterate (ValueList xs) = xs"

definition check_value :: "Action \<Rightarrow> string \<Rightarrow> parse_stop option" where
  "check_value action v =
     (case choices action of
        None \<Rightarrow> None
      | Some chs \<Rightarrow>
          if v \<in> set chs then None
          else Some (ArgumentError (option_strings action)
                       [Text ''invalid choice: '', Formatted (PyStr v),
                        Text '' (choose from '', Formatted (PyList chs), Text '')'']))"

fun check_values :: "Action \<Rightarrow> string list \<Rightarrow> parse_stop option" where
  "check_values action [] = None"
| "check_values action (v # vs) =
     (case check_value action v of
        Some e \<Rightarrow> Some e
      | None \<Rightarrow> check_values action vs)"

text \<open>
  \<^verbatim>\<open>_get_values\<close>: a single argument string of an action of the default arity is
  the value itself; every other arity produces a list. No \<^verbatim>\<open>type=\<close> conversion is
  declared anywhere, and each value must be one of the choices when there are any.
\<close>

definition get_values :: "Action \<Rightarrow> string list \<Rightarrow> parse_stop + arg_values" where
  "get_values action arg_strings =
     (case (nargs action, arg_strings) of
        (NargsNone, [arg_string]) \<Rightarrow>
          (case check_value action arg_string of
             Some e \<Rightarrow> Inl e
           | None \<Rightarrow> Inr (OneValue arg_string))
      | _ \<Rightarrow>
          (case check_values action arg_strings of
             Some e \<Rightarrow> Inl e
           | None \<Rightarrow> Inr (ValueList arg_strings)))"

text \<open>\<^verbatim>\<open>action(parser, namespace, values, option_string)\<close> for each action class.\<close>

definition call_action :: "Action \<Rightarrow> namespace \<Rightarrow> arg_values \<Rightarrow> parse_stop + namespace" where
  "call_action action ns vals =
     (case action_class action of
        StoreAction \<Rightarrow> Inr (setattr ns (dest action) (to_pyval vals))
      | StoreConstAction \<Rightarrow> Inr (setattr ns (dest action) (const_value action))
      | HelpAction \<Rightarrow> Inl PrintHelpExit
      | VersionAction \<Rightarrow> Inl PrintVersionExit
      | KwargsAppendAction \<Rightarrow> KwargsAppendAction_call action ns (iterate vals))"

record parse_state =
  st_namespace :: namespace
  st_positionals :: "Action list"
  st_seen :: "Action list"
  st_extras :: "string list"

definition take_action :: "Action \<Rightarrow> string list \<Rightarrow> parse_state \<Rightarrow> parse_stop + parse_state" where
  "take_action action argument_strings st =
     (case get_values action argument_strings of
        Inl e \<Rightarrow> Inl e
      | Inr vals \<Rightarrow>
          (case call_action action (st_namespace st) vals of
             Inl e \<Rightarrow> Inl e
           | Inr ns \<Rightarrow> Inr (st\<lparr>st_namespace := ns, st_seen := action # st_seen st\<rparr>)))"

text \<open>
  An argument string that belongs to no option goes to the next positional action
  that is still open (each takes exactly one string here), or to the unrecognised
  extras when none is left.
\<close>

definition consume_positional :: "string \<Rightarrow> parse_state \<Rightarrow> parse_stop + parse_state" where
  "consume_positional arg_string st =
     (case st_positionals st of
        [] \<Rightarrow> Inr (st\<lparr>st_extras := st_extras st @ [arg_string]\<rparr>)
      | action # rest \<Rightarrow> take_action action [arg_string] (st\<lparr>st_positionals := rest\<rparr>))"

fun consume_positionals :: "string list \<Rightarrow> parse_state \<Rightarrow> parse_stop + parse_state" where
  "consume_positionals [] st = Inr st"
| "consume_positionals (arg_string # arg_strings) st =
     (case consume_positional arg_string st of
        Inl e \<Rightarrow> Inl e
      | Inr st' \<Rightarrow> consume_positionals arg_strings st')"

text \<open>
  An occurrence of an option string: an unknown one goes to the extras; a known one
  takes as many of the following argument strings as its arity allows (exactly one,
  none, or all of them) and leaves the others to the positionals.
\<close>

definition consume_optional ::
  "Action list \<Rightarrow> string \<Rightarrow> string list \<Rightarrow> parse_state \<Rightarrow> parse_stop + parse_state" where
  "consume_optional actions option_string arg_strings st =
     (case find (\<lambda>action. option_string \<in> set (option_strings action)) actions of
        None \<Rightarrow>
          consume_positionals arg_strings (st\<lparr>st_extras := st_extras st @ [option_string]\<rparr>)
      | Some action \<Rightarrow>
          (case nargs action of
             NargsNone \<Rightarrow>
               (case arg_strings of
                  [] \<Rightarrow> Inl (ArgumentError (option_strings action) [Text ''expected one argument''])
                | arg_string # others \<Rightarrow>
                    (case take_action action [arg_string] st of
                       Inl e \<Rightarrow> Inl e
                     | Inr st' \<Rightarrow> consume_positionals others st'))
           | NargsZero \<Rightarrow>
               (case take_action action [] st of
                  Inl e \<Rightarrow> Inl e
                | Inr st' \<Rightarrow> consume_positionals arg_strings st')
           | NargsStar \<Rightarrow> take_action action arg_strings st))"

fun consume_items ::
  "Action list \<Rightarrow> cli_item list \<Rightarrow> parse_state \<Rightarrow> parse_stop + parse_state" where
  "consume_items actions [] st = Inr st"
| "consume_items actions (Positional arg_string # items) st =
     (case consume_positional arg_string st of
        Inl e \<Rightarrow> Inl e
      | Inr st' \<Rightarrow> consume_items actions items st')"
| "consume_items actions (Optional option_string arg_strings # items) st =
     (case consume_optional actions option_string arg_strings st of
        Inl e \<Rightarrow> Inl e
      | Inr st' \<Rightarrow> consume_items actions items st')"

text \<open>
  \<^verbatim>\<open>parse_known_args\<close> first gives every destination that the namespace lacks the
  default of the first action that declares it, then consumes the command line.
  \<^verbatim>\<open>parse_args\<close> fails when a required action was not seen, and then when
  unrecognised strings are left.
\<close>

definition add_defaults :: "Action list \<Rightarrow> namespace \<Rightarrow> namespace" where
  "add_defaults actions ns =
     fold (\<lambda>action ns.
             case default_value action of
               SUPPRESS \<Rightarrow> ns
             | Default d \<Rightarrow> if hasattr ns (dest action) then ns else setattr ns (dest action) d)
          actions ns"

definition parse_args :: "Action list \<Rightarrow> cli_item list \<Rightarrow> namespace \<Rightarrow> parse_stop + namespace" where
  "parse_args actions argv ns =
     (case consume_items actions argv
             \<lparr>st_namespace = add_defaults actions ns,
              st_positionals = filter (\<lambda>action. option_strings action = []) actions,
              st_seen = [], st_extras = []\<rparr> of
        Inl e \<Rightarrow> Inl e
      | Inr st \<Rightarrow>
          (case filter (\<lambda>action. required action \<and> \<not> List.member (st_seen st) action) actions of
             missing # rest \<Rightarrow>
               Inl (ParserError [Text ''the following arguments are required: '',
                                 Formatted (PyList (map dest (missing # rest)))])
           | [] \<Rightarrow>
               if st_extras st \<noteq> []
               then Inl (ParserError [Text ''unrecognized arguments: '',
                                      Formatted (PyList (st_extras st))])
               else Inr (st_namespace st)))"

section \<open>Configuration, dispatch and the error surface\<close>

text \<open>
  The exceptions that \<^verbatim>\<open>main\<close> can see. \<open>HTTPError\<close> stands for every instance of
  \<^verbatim>\<open>requests.exceptions.HTTPError\<close>, with the text that \<^verbatim>\<open>str\<close> gives it and
  its \<^verbatim>\<open>response\<close> attribute (possibly \<^verbatim>\<open>None\<close>); \<open>JSONDecodeError\<close> for every
  instance of \<^verbatim>\<open>requests.exceptions.JSONDecodeError\<close>; \<open>SystemExit\<close> is what
  \<^verbatim>\<open>sys.exit\<close> raises; \<open>OtherException\<close> is any exception of another class. A
  response is known by what its method \<^verbatim>\<open>json()\<close> does: it raises, or it returns
  the decoded body (kept as the text that logging renders it to).
\<close>

datatype py_exception =
    SystemExit int
  | AttributeError
  | TypeError
  | HTTPError string "response option"
  | JSONDecodeError
  | OtherException string
and response =
    Response (response_json: "py_exception + string")

text \<open>
  Modelled from the spec: the classes \<^verbatim>\<open>ConfluenceDocumentOptions\<close> and
  \<^verbatim>\<open>ConfluenceProperties\<close> are imported from modules that are not part of the
  source at hand. The spec describes both as immutable structures that hold what
  they are given (rendering options: heading anchors, URL tolerance, generated-by
  text, root page id, Mermaid toggle, diagram format, web-UI link toggle; connection
  properties: domain, base path, username, API key, space key, header map), built
  by a pure transformation of the parsed arguments. The fields of the first carry
  the keyword names of the call in \<^verbatim>\<open>main\<close>; the second is called with six
  positional arguments.
\<close>

record ConfluenceDocumentOptions =
  heading_anchors :: pyval
  ignore_invalid_url :: pyval
  generated_by :: pyval
  root_page_id :: pyval
  render_mermaid :: pyval
  diagram_output_format :: pyval
  webui_links :: pyval

record ConfluenceProperties =
  prop_domain :: pyval
  prop_base_path :: pyval
  prop_user_name :: pyval
  prop_api_key :: pyval
  prop_space_key :: pyval
  prop_headers :: pyval

text \<open>
  The collaborators behind the two pipelines are not part of the source either and
  are parameters of the model. Each call runs in a world \<open>'w\<close> that it may change, and
  either returns or raises:
  \<^item> \<open>Processor_process\<close> is \<^verbatim>\<open>Processor(options, properties).process(mdpath)\<close>;
  \<^item> \<open>ConfluenceAPI_init\<close> is the constructor call \<^verbatim>\<open>ConfluenceAPI(properties)\<close>,
    which yields the context manager \<open>'m\<close>;
  \<^item> \<open>ConfluenceAPI_enter\<close> and \<open>ConfluenceAPI_exit\<close> are its \<^verbatim>\<open>__enter__\<close>, which
    yields the handle \<open>'a\<close>, and its \<^verbatim>\<open>__exit__\<close>, which is told the exception
    that left the block, if any, and says whether to suppress it;
  \<^item> \<open>Application_synchronize\<close> is \<^verbatim>\<open>Application(api, options).synchronize(mdpath)\<close>.
\<close>

record ('w, 'm, 'a) collaborators =
  Processor_process ::
    "ConfluenceDocumentOptions \<Rightarrow> ConfluenceProperties \<Rightarrow> string \<Rightarrow> 'w \<Rightarrow> (py_exception + unit) \<times> 'w"
  ConfluenceAPI_init :: "ConfluenceProperties \<Rightarrow> 'w \<Rightarrow> (py_exception + 'm) \<times> 'w"
  ConfluenceAPI_enter :: "'m \<Rightarrow> 'w \<Rightarrow> (py_exception + 'a) \<times> 'w"
  ConfluenceAPI_exit :: "'m \<Rightarrow> py_exception option \<Rightarrow> 'w \<Rightarrow> (py_exception + bool) \<times> 'w"
  Application_synchronize ::
    "'a \<Rightarrow> ConfluenceDocumentOptions \<Rightarrow> string \<Rightarrow> 'w \<Rightarrow> (py_exception + unit) \<times> 'w"

text \<open>
  What the program does to the outside is recorded as a list of events, oldest
  first: the configuration of logging, every message logged at error severity, and
  every call of a collaborator with its arguments.
\<close>

datatype ('m, 'a) event =
    BasicConfig nat string
  | LoggingError string
  | CallProcess ConfluenceDocumentOptions ConfluenceProperties string
  | CallConfluenceAPI ConfluenceProperties
  | CallEnter 'm
  | CallSynchronize 'a ConfluenceDocumentOptions string
  | CallExit 'm "py_exception option"

definition call ::
  "('m, 'a) event \<Rightarrow> ('w \<Rightarrow> 'r \<times> 'w) \<Rightarrow> 'w \<times> ('m, 'a) event list
     \<Rightarrow> 'r \<times> 'w \<times> ('m, 'a) event list" where
  "call ev f s = (case s of (w, evs) \<Rightarrow> (case f w of (r, w') \<Rightarrow> (r, w', evs @ [ev])))"

definition logging_error ::
  "string \<Rightarrow> 'w \<times> ('m, 'a) event list \<Rightarrow> 'w \<times> ('m, 'a) event list" where
  "logging_error msg s = (case s of (w, evs) \<Rightarrow> (w, evs @ [LoggingError msg]))"

subsection \<open>The remote path\<close>

text \<open>
  \<^verbatim>\<open>with ConfluenceAPI(properties) as api: Application(api, options).synchronize(mdpath)\<close>.
  The statement evaluates the constructor, enters the manager, runs the body and
  then calls \<^verbatim>\<open>__exit__\<close>, with the exception of the body if it raised one; a true
  result of \<^verbatim>\<open>__exit__\<close> suppresses that exception, and an exception of
  \<^verbatim>\<open>__exit__\<close> itself replaces it. When the constructor or \<^verbatim>\<open>__enter__\<close>
  raises, nothing was entered and \<^verbatim>\<open>__exit__\<close> is not called.
\<close>

definition remote_publish ::
  "('w, 'm, 'a) collaborators \<Rightarrow> ConfluenceDocumentOptions \<Rightarrow> ConfluenceProperties \<Rightarrow> string
     \<Rightarrow> 'w \<times> ('m, 'a) event list \<Rightarrow> (py_exception + unit) \<times> 'w \<times> ('m, 'a) event list" where
  "remote_publish c options properties mdpath s0 =
     (case call (CallConfluenceAPI properties) (ConfluenceAPI_init c properties) s0 of
        (Inl e, s1) \<Rightarrow> (Inl e, s1)
      | (Inr manager, s1) \<Rightarrow>
          (case call (CallEnter manager) (ConfluenceAPI_enter c manager) s1 of
             (Inl e, s2) \<Rightarrow> (Inl e, s2)
           | (Inr api, s2) \<Rightarrow>
               (case call (CallSynchronize api options mdpath)
                       (Application_synchronize c api options mdpath) s2 of
                  (Inr u, s3) \<Rightarrow>
                    (case call (CallExit manager None) (ConfluenceAPI_exit c manager None) s3 of
                       (Inl e', s4) \<Rightarrow> (Inl e', s4)
                     | (Inr suppress, s4) \<Rightarrow> (Inr (), s4))
                | (Inl e, s3) \<Rightarrow>
                    (case call (CallExit manager (Some e))
                            (ConfluenceAPI_exit c manager (Some e)) s3 of
                       (Inl e', s4) \<Rightarrow> (Inl e', s4)
                     | (Inr suppress, s4) \<Rightarrow> (if suppress then Inr () else Inl e, s4)))))"

text \<open>
  The body of \<^verbatim>\<open>except requests.exceptions.HTTPError as err\<close>: log the error, log
  the decoded body of its response when there is a response and it decodes, pass
  over a \<^verbatim>\<open>JSONDecodeError\<close> of the decoding, and \<^verbatim>\<open>sys.exit(1)\<close>. Any other
  exception of \<^verbatim>\<open>json()\<close> leaves the handler before \<^verbatim>\<open>sys.exit\<close>.
\<close>

definition handle_HTTPError ::
  "string \<Rightarrow> response option \<Rightarrow> 'w \<times> ('m, 'a) event list
     \<Rightarrow> (py_exception + unit) \<times> 'w \<times> ('m, 'a) event list" where
  "handle_HTTPError message resp s =
     (let s1 = logging_error message s in
      case resp of
        None \<Rightarrow> (Inl (SystemExit 1), s1)
      | Some r \<Rightarrow>
          (case response_json r of
             Inr body \<Rightarrow> (Inl (SystemExit 1), logging_error body s1)
           | Inl JSONDecodeError \<Rightarrow> (Inl (SystemExit 1), s1)
           | Inl e \<Rightarrow> (Inl e, s1)))"

text \<open>The \<^verbatim>\<open>if args.local: ... else: try: ... except ...\<close> at the end of \<^verbatim>\<open>main\<close>.\<close>

definition dispatch ::
  "('w, 'm, 'a) collaborators \<Rightarrow> bool \<Rightarrow> ConfluenceDocumentOptions \<Rightarrow> ConfluenceProperties
     \<Rightarrow> string \<Rightarrow> 'w \<times> ('m, 'a) event list
     \<Rightarrow> (py_exception + unit) \<times> 'w \<times> ('m, 'a) event list" where
  "dispatch c local options properties mdpath s =
     (if local
      then call (CallProcess options properties mdpath)
             (Processor_process c options properties mdpath) s
      else (case remote_publish c options properties mdpath s of
              (Inl (HTTPError message resp), s') \<Rightarrow> handle_HTTPError message resp s'
            | (r, s') \<Rightarrow> (r, s')))"

subsection \<open>\<^verbatim>\<open>main\<close>\<close>

text \<open>\<^verbatim>\<open>args.mdpath = Path(args.mdpath)\<close>; \<^verbatim>\<open>Path\<close> accepts a string or a path.\<close>

definition resolve_mdpath :: "namespace \<Rightarrow> py_exception + namespace" where
  "resolve_mdpath args =
     (case getattr args ''mdpath'' of
        None \<Rightarrow> Inl AttributeError
      | Some (PyStr p) \<Rightarrow> Inr (setattr args ''mdpath'' (PyPath p))
      | Some (PyPath p) \<Rightarrow> Inr (setattr args ''mdpath'' (PyPath p))
      | Some _ \<Rightarrow> Inl TypeError)"

text \<open>\<^verbatim>\<open>getattr(logging, args.loglevel.upper(), logging.INFO)\<close>.\<close>

definition logging_level :: "namespace \<Rightarrow> py_exception + nat" where
  "logging_level args =
     (case getattr args ''loglevel'' of
        Some (PyStr l) \<Rightarrow> Inr (logging_getattr (str_upper l) logging_INFO)
      | _ \<Rightarrow> Inl AttributeError)"

definition logging_format :: string where
  "logging_format =
     ''%(asctime)s - %(levelname)s - %(funcName)s [%(lineno)d] - %(message)s''"

text \<open>
  The two configuration objects; \<open>None\<close> is the \<^verbatim>\<open>AttributeError\<close> of an attribute
  that the namespace does not have.
\<close>

definition make_options :: "namespace \<Rightarrow> ConfluenceDocumentOptions option" where
  "make_options args =
     do {
       ha \<leftarrow> getattr args ''heading_anchors'';
       iiu \<leftarrow> getattr args ''ignore_invalid_url'';
       gb \<leftarrow> getattr args ''generated_by'';
       rp \<leftarrow> getattr args ''root_page'';
       rm \<leftarrow> getattr args ''render_mermaid'';
       dof \<leftarrow> getattr args ''diagram_output_format'';
       wl \<leftarrow> getattr args ''webui_links'';
       Some \<lparr>heading_anchors = ha, ignore_invalid_url = iiu, generated_by = gb,
             root_page_id = rp, render_mermaid = rm, diagram_output_format = dof,
             webui_links = wl\<rparr>
     }"

definition make_properties :: "namespace \<Rightarrow> ConfluenceProperties option" where
  "make_properties args =
     do {
       d \<leftarrow> getattr args ''domain'';
       p \<leftarrow> getattr args ''path'';
       u \<leftarrow> getattr args ''username'';
       a \<leftarrow> getattr args ''apikey'';
       sp \<leftarrow> getattr args ''space'';
       h \<leftarrow> getattr args ''headers'';
       Some \<lparr>prop_domain = d, prop_base_path = p, prop_user_name = u,
             prop_api_key = a, prop_space_key = sp, prop_headers = h\<rparr>
     }"

text \<open>
  \<^verbatim>\<open>main\<close>, from the parsed command line to the outcome: \<open>Inr ()\<close> when it returns,
  \<open>Inl e\<close> when the exception \<open>e\<close> leaves it. A parse that stops makes
  \<^verbatim>\<open>parse_args\<close> exit the process, with status 0 after printing the help or the
  version and with status 2 after an error.
\<close>

definition main ::
  "('w, 'm, 'a) collaborators \<Rightarrow> cli_item list \<Rightarrow> 'w
     \<Rightarrow> (py_exception + unit) \<times> 'w \<times> ('m, 'a) event list" where
  "main c argv w =
     (case parse_args parser_actions argv Arguments of
        Inl PrintHelpExit \<Rightarrow> (Inl (SystemExit 0), w, [])
      | Inl PrintVersionExit \<Rightarrow> (Inl (SystemExit 0), w, [])
      | Inl (ArgumentError a m) \<Rightarrow> (Inl (SystemExit 2), w, [])
      | Inl (ParserError m) \<Rightarrow> (Inl (SystemExit 2), w, [])
      | Inr parsed \<Rightarrow>
          (case resolve_mdpath parsed of
             Inl e \<Rightarrow> (Inl e, w, [])
           | Inr args \<Rightarrow>
               (case logging_level args of
                  Inl e \<Rightarrow> (Inl e, w, [])
                | Inr level \<Rightarrow>
                    (let s = (w, [BasicConfig level logging_format]) in
                     case make_options args of
                       None \<Rightarrow> (Inl AttributeError, s)
                     | Some options \<Rightarrow>
                         (case make_properties args of
                            None \<Rightarrow> (Inl AttributeError, s)
                          | Some properties \<Rightarrow>
                              (case (getattr args ''local'', getattr args ''mdpath'') of
                                 (Some local, Some (PyPath mdpath)) \<Rightarrow>
                                   dispatch c (truthy local) options properties mdpath s
                               | _ \<Rightarrow> (Inl AttributeError, s)))))))"

section \<open>Properties of the header-map parser\<close>

subsection \<open>Splitting and dictionary construction\<close>

lemma str_split_not_Nil: "str_split s sep \<noteq> []"
  by (induction s) (auto split: list.splits)

lemma length_str_split: "length (str_split s sep) = Suc (count_list s sep)"
  by (induction s) (auto split: list.splits simp: str_split_not_Nil)

lemma str_split_no_sep: "sep \<notin> set s \<Longrightarrow> str_split s sep = [s]"
  by (induction s) auto

lemma str_split_append:
  "sep \<notin> set k \<Longrightarrow> str_split (k @ sep # v) sep = k # str_split v sep"
  by (induction k) auto

lemma str_split_key_value:
  "sep \<notin> set k \<Longrightarrow> sep \<notin> set v \<Longrightarrow> str_split (k @ sep # v) sep = [k, v]"
  by (simp add: str_split_append str_split_no_sep)

lemma dict_update_bad_length:
  "\<exists>e \<in> set elems. length e \<noteq> 2 \<Longrightarrow> dict_update d elems = Inl ValueError"
proof (induction elems arbitrary: d)
  case Nil
  then show ?case by simp
next
  case (Cons e es)
  show ?case
  proof (cases "length e = 2")
    case True
    then obtain k v where e: "e = [k, v]"
      by (cases e; cases "tl e"; cases "tl (tl e)") auto
    from True Cons.prems have "\<exists>x \<in> set es. length x \<noteq> 2" by auto
    then show ?thesis using Cons.IH e by simp
  next
    case False
    then show ?thesis
      by (cases e; cases "tl e"; cases "tl (tl e)") auto
  qed
qed

lemma dict_update_pairs:
  "dict_update d (map (\<lambda>(k, v). [k, v]) kvs) = Inr (fold (\<lambda>(k, v). AList.update k v) kvs d)"
  by (induction kvs arbitrary: d) (auto split: prod.splits)

lemma map_of_fold_update:
  "map_of (fold (\<lambda>(k, v). AList.update k v) kvs d) = map_of d ++ map_of (rev kvs)"
  by (induction kvs arbitrary: d) (auto simp: update_conv' split: prod.splits)

lemma distinct_fold_update:
  "distinct (map fst d) \<Longrightarrow> distinct (map fst (fold (\<lambda>(k, v). AList.update k v) kvs d))"
  by (induction kvs arbitrary: d) (auto simp: distinct_update split: prod.splits)

subsection \<open>Malformed tokens\<close>

text \<open>
  Claim C1, as the code has it: when any header token does not contain exactly one
  \<^verbatim>\<open>=\<close> (in particular when it contains none), the action fails as a whole with
  an \<^verbatim>\<open>ArgumentError\<close> that carries the whole list of values and the expected
  format, and no namespace, hence no partial map, is produced. An empty key is no
  reason to fail.
\<close>

theorem header_tokens_without_single_separator_fail:
  assumes "\<exists>t \<in> set values. count_list t CHR ''='' \<noteq> 1"
  shows \<open>KwargsAppendAction_call self ns values =
           Inl (ArgumentError (option_strings self)
                  [Text ''Could not parse argument "'', Formatted (PyList values),
                   Text ''". It should follow the format: k1=v1 k2=v2 ...''])\<close>
proof -
  from assms have "\<exists>e \<in> set (map (\<lambda>x. str_split x CHR ''='') values). length e \<noteq> 2"
    by (auto simp: length_str_split)
  then have "dict (map (\<lambda>x. str_split x CHR ''='') values) = Inl ValueError"
    unfolding dict_def by (rule dict_update_bad_length)
  then show ?thesis by (simp add: KwargsAppendAction_call_def)
qed

text \<open>The theorem at the tokens \<^verbatim>\<open>a=b c\<close>.\<close>

theorem header_tokens_without_single_separator_fail_witness:
  \<open>(\<exists>t \<in> set [''a=b'', ''c'']. count_list t CHR ''='' \<noteq> 1)
   \<and> KwargsAppendAction_call (kwargs_append [''--headers'']) Arguments [''a=b'', ''c''] =
       Inl (ArgumentError [''--headers'']
              [Text ''Could not parse argument "'', Formatted (PyList [''a=b'', ''c'']),
               Text ''". It should follow the format: k1=v1 k2=v2 ...''])\<close>
proof -
  have h: "\<exists>t \<in> set [''a=b'', ''c'']. count_list t CHR ''='' \<noteq> 1" by simp
  show ?thesis
    using h header_tokens_without_single_separator_fail
            [OF h, of "kwargs_append [''--headers'']" Arguments]
    by (simp add: kwargs_append_def)
qed

text \<open>
  The token \<^verbatim>\<open>=v\<close> has an empty key, and the action accepts it: the map holds
  the empty string as a key.
\<close>

theorem empty_key_token_is_accepted:
  "hd ''=v'' = CHR ''=''
   \<and> KwargsAppendAction_call (kwargs_append [''--headers'']) Arguments [''=v''] =
       Inr [(''headers'', PyDict [('''', ''v'')])]"
  by (simp add: KwargsAppendAction_call_def dict_def kwargs_append_def infer_dest_def
      is_long_option_def setattr_def Arguments_def)

subsection \<open>Well-formed tokens\<close>

text \<open>
  Claim C5, as the code has it: for every list of tokens \<^verbatim>\<open>K=V\<close> with a non-empty
  key and no \<^verbatim>\<open>=\<close> in the key or in the value, the action succeeds and stores a
  dictionary that has exactly the keys of the tokens, each mapped to the value of
  its last occurrence.
\<close>

theorem well_formed_header_tokens_give_map:
  assumes "\<forall>(k, v) \<in> set kvs. k \<noteq> [] \<and> CHR ''='' \<notin> set k \<and> CHR ''='' \<notin> set v"
  shows "\<exists>d. KwargsAppendAction_call self ns (map (\<lambda>(k, v). k @ CHR ''='' # v) kvs) =
               Inr (setattr ns (dest self) (PyDict d))
            \<and> map_of d = map_of (rev kvs)
            \<and> dom (map_of d) = fst ` set kvs
            \<and> distinct (map fst d)"
proof -
  let ?d = "fold (\<lambda>(k, v). AList.update k v) kvs []"
  have "map (\<lambda>x. str_split x CHR ''='') (map (\<lambda>(k, v). k @ CHR ''='' # v) kvs)
          = map (\<lambda>(k, v). [k, v]) kvs"
    using assms by (auto simp: str_split_key_value)
  then have "dict (map (\<lambda>x. str_split x CHR ''='') (map (\<lambda>(k, v). k @ CHR ''='' # v) kvs)) = Inr ?d"
    unfolding dict_def by (simp only: dict_update_pairs)
  then have call: "KwargsAppendAction_call self ns (map (\<lambda>(k, v). k @ CHR ''='' # v) kvs) =
               Inr (setattr ns (dest self) (PyDict ?d))"
    by (simp add: KwargsAppendAction_call_def)
  have m: "map_of ?d = map_of (rev kvs)" by (simp add: map_of_fold_update)
  have "dom (map_of ?d) = fst ` set kvs" unfolding m by (simp add: dom_map_of_conv_image_fst)
  moreover have "distinct (map fst ?d)" by (rule distinct_fold_update) simp
  ultimately show ?thesis using call m by blast
qed

text \<open>The theorem at the tokens \<^verbatim>\<open>a=1 b= a=2\<close>.\<close>

theorem well_formed_header_tokens_give_map_witness:
  "KwargsAppendAction_call (kwargs_append [''--headers'']) Arguments [''a=1'', ''b='', ''a=2'']
     = Inr [(''headers'', PyDict [(''a'', ''2''), (''b'', '''')])]"
proof -
  have h: "\<forall>(k, v) \<in> set [(''a'', ''1''), (''b'', ''''), (''a'', ''2'')].
       k \<noteq> [] \<and> CHR ''='' \<notin> set k \<and> CHR ''='' \<notin> set v" by simp
  from well_formed_header_tokens_give_map[OF h, of "kwargs_append [''--headers'']" Arguments]
  obtain d where "KwargsAppendAction_call (kwargs_append [''--headers'']) Arguments
       (map (\<lambda>(k, v). k @ CHR ''='' # v) [(''a'', ''1''), (''b'', ''''), (''a'', ''2'')])
         = Inr (setattr Arguments (dest (kwargs_append [''--headers''])) (PyDict d))"
    by blast
  then show ?thesis
    by (simp add: KwargsAppendAction_call_def dict_def kwargs_append_def infer_dest_def
      is_long_option_def setattr_def Arguments_def)
qed

text \<open>
  The token \<^verbatim>\<open>a=b=c\<close> divides at its first \<^verbatim>\<open>=\<close> into the key \<^verbatim>\<open>a\<close> and the
  value \<^verbatim>\<open>b=c\<close>, and the action rejects it.
\<close>

theorem token_with_second_separator_is_rejected:
  \<open>''a=b=c'' = ''a'' @ CHR ''='' # ''b=c''
   \<and> KwargsAppendAction_call (kwargs_append [''--headers'']) Arguments [''a=b=c''] =
       Inl (ArgumentError [''--headers'']
              [Text ''Could not parse argument "'', Formatted (PyList [''a=b=c'']),
               Text ''". It should follow the format: k1=v1 k2=v2 ...''])\<close>
  by (simp add: KwargsAppendAction_call_def dict_def kwargs_append_def)

section \<open>Properties of the argument parser\<close>

subsection \<open>The declared actions, evaluated\<close>

lemmas ctor_defs = store_def positional_def store_const_def store_true_def store_false_def
  help_action_def version_action_def kwargs_append_def get_dest_def infer_dest_def is_long_option_def

lemma loglevel_choices_eq:
  "loglevel_choices = [''debug'', ''info'', ''warning'', ''error'', ''critical'']"
  by (simp add: loglevel_choices_def getLevelName_def levelToName_def str_lower_def
      ascii_uppercase_def ascii_lowercase_def
      logging_DEBUG_def logging_INFO_def logging_WARN_def logging_WARNING_def logging_ERROR_def
      logging_CRITICAL_def logging_NOTSET_def)

lemma getLevelName_INFO: "getLevelName logging_INFO = ''INFO''"
  by (simp add: getLevelName_def levelToName_def 
      logging_DEBUG_def logging_INFO_def logging_WARN_def logging_WARNING_def logging_ERROR_def
      logging_CRITICAL_def logging_NOTSET_def)

lemma parser_actions_eq:
  "parser_actions =
    [\<lparr>option_strings = [''-h'', ''--help''], dest = ''help'', nargs = NargsZero,
      const_value = PyNone, default_value = SUPPRESS, choices = None,
      required = False, action_class = HelpAction\<rparr>,
     \<lparr>option_strings = [''--version''], dest = ''version'', nargs = NargsZero,
      const_value = PyNone, default_value = SUPPRESS, choices = None,
      required = False, action_class = VersionAction\<rparr>,
     \<lparr>option_strings = [], dest = ''mdpath'', nargs = NargsNone,
      const_value = PyNone, default_value = Default PyNone, choices = None,
      required = True, action_class = StoreAction\<rparr>,
     \<lparr>option_strings = [''-d'', ''--domain''], dest = ''domain'', nargs = NargsNone,
      const_value = PyNone, default_value = Default PyNone, choices = None,
      required = False, action_class = StoreAction\<rparr>,
     \<lparr>option_strings = [''-p'', ''--path''], dest = ''path'', nargs = NargsNone,
      const_value = PyNone, default_value = Default PyNone, choices = None,
      required = False, action_class = StoreAction\<rparr>,
     \<lparr>option_strings = [''-u'', ''--username''], dest = ''username'', nargs = NargsNone,
      const_value = PyNone, default_value = Default PyNone, choices = None,
      required = False, action_class = StoreAction\<rparr>,
     \<lparr>option_strings = [''-a'', ''--apikey''], dest = ''apikey'', nargs = NargsNone,
      const_value = PyNone, default_value = Default PyNone, choices = None,
      required = False, action_class = StoreAction\<rparr>,
     \<lparr>option_strings = [''-s'', ''--space''], dest = ''space'', nargs = NargsNone,
      const_value = PyNone, default_value = Default PyNone, choices = None,
      required = False, action_class = StoreAction\<rparr>,
     \<lparr>option_strings = [''-l'', ''--loglevel''], dest = ''loglevel'', nargs = NargsNone,
      const_value = PyNone, default_value = Default (PyStr ''INFO''),
      choices = Some [''debug'', ''info'', ''warning'', ''error'', ''critical''],
      required = False, action_class = StoreAction\<rparr>,
     \<lparr>option_strings = [''-r''], dest = ''root_page'', nargs = NargsNone,
      const_value = PyNone, default_value = Default PyNone, choices = None,
      required = False, action_class = StoreAction\<rparr>,
     \<lparr>option_strings = [''--generated-by''], dest = ''generated_by'', nargs = NargsNone,
      const_value = PyNone,
      default_value = Default (PyStr ''This page has been generated with a tool.''),
      choices = None, required = False, action_class = StoreAction\<rparr>,
     \<lparr>option_strings = [''--no-generated-by''], dest = ''generated_by'', nargs = NargsZero,
      const_value = PyNone, default_value = Default PyNone, choices = None,
      required = False, action_class = StoreConstAction\<rparr>,
     \<lparr>option_strings = [''--render-mermaid''], dest = ''render_mermaid'', nargs = NargsZero,
      const_value = PyBool True, default_value = Default (PyBool True), choices = None,
      required = False, action_class = StoreConstAction\<rparr>,
     \<lparr>option_strings = [''--no-render-mermaid''], dest = ''render_mermaid'', nargs = NargsZero,
      const_value = PyBool False, default_value = Default (PyBool True), choices = None,
      required = False, action_class = StoreConstAction\<rparr>,
     \<lparr>option_strings = [''--render-mermaid-format''], dest = ''diagram_output_format'',
      nargs = NargsNone, const_value = PyNone, default_value = Default (PyStr ''png''),
      choices = Some [''png'', ''svg''], required = False, action_class = StoreAction\<rparr>,
     \<lparr>option_strings = [''--heading-anchors''], dest = ''heading_anchors'', nargs = NargsZero,
      const_value = PyBool True, default_value = Default (PyBool False), choices = None,
      required = False, action_class = StoreConstAction\<rparr>,
     \<lparr>option_strings = [''--ignore-invalid-url''], dest = ''ignore_invalid_url'',
      nargs = NargsZero, const_value = PyBool True, default_value = Default (PyBool False),
      choices = None, required = False, action_class = StoreConstAction\<rparr>,
     \<lparr>option_strings = [''--local''], dest = ''local'', nargs = NargsZero,
      const_value = PyBool True, default_value = Default (PyBool False), choices = None,
      required = False, action_class = StoreConstAction\<rparr>,
     \<lparr>option_strings = [''--headers''], dest = ''headers'', nargs = NargsStar,
      const_value = PyNone, default_value = Default PyNone, choices = None,
      required = False, action_class = KwargsAppendAction\<rparr>,
     \<lparr>option_strings = [''--webui-links''], dest = ''webui_links'', nargs = NargsZero,
      const_value = PyBool True, default_value = Default (PyBool False), choices = None,
      required = False, action_class = StoreConstAction\<rparr>]"
  unfolding parser_actions_def loglevel_choices_eq getLevelName_INFO
  by (simp add: ctor_defs)

lemma initial_namespace:
  "add_defaults parser_actions Arguments =
     [(''mdpath'', PyNone), (''domain'', PyNone),
      (''path'', PyNone), (''username'', PyNone), (''apikey'', PyNone),
      (''space'', PyNone), (''loglevel'', PyStr ''INFO''),
      (''root_page'', PyNone),
      (''generated_by'', PyStr ''This page has been generated with a tool.''),
      (''render_mermaid'', PyBool True),
      (''diagram_output_format'', PyStr ''png''),
      (''heading_anchors'', PyBool False),
      (''ignore_invalid_url'', PyBool False), (''local'', PyBool False),
      (''headers'', PyNone), (''webui_links'', PyBool False)]"
  unfolding parser_actions_eq
  by (simp add: add_defaults_def Arguments_def hasattr_def setattr_def)

subsection \<open>Invariants of the parse loop\<close>

lemma take_action_Inr:
  assumes "take_action a args st = Inr st'"
  shows "\<exists>v. st' = st\<lparr>st_namespace := setattr (st_namespace st) (dest a) v,
                        st_seen := a # st_seen st\<rparr>"
  using assms
  by (auto simp: take_action_def call_action_def KwargsAppendAction_call_def
      split: sum.splits action_class.splits value_error.splits)

lemma consume_positionals_rule:
  assumes "consume_positionals xs st = Inr st'" and "I st"
    and "\<And>x s s'. I s \<Longrightarrow> consume_positional x s = Inr s' \<Longrightarrow> I s'"
  shows "I st'"
  using assms(1,2)
proof (induction xs arbitrary: st)
  case Nil
  then show ?case by simp
next
  case (Cons x xs)
  then show ?case using assms(3) by (auto split: sum.splits)
qed

lemma consume_optional_rule:
  assumes run: "consume_optional actions opt args st = Inr st'" and init: "I st"
    and take: "\<And>a xs s'. find (\<lambda>x. opt \<in> set (option_strings x)) actions = Some a
                  \<Longrightarrow> take_action a xs st = Inr s'
                  \<Longrightarrow> (nargs a = NargsNone \<longrightarrow> (\<exists>x. xs = [x])) \<Longrightarrow> (nargs a = NargsZero \<longrightarrow> xs = [])
                  \<Longrightarrow> I s'"
    and pos: "\<And>x s s'. I s \<Longrightarrow> consume_positional x s = Inr s' \<Longrightarrow> I s'"
    and ext: "\<And>x s. I s \<Longrightarrow> I (s\<lparr>st_extras := st_extras s @ [x]\<rparr>)"
  shows "I st'"
proof (cases "find (\<lambda>x. opt \<in> set (option_strings x)) actions")
  case None
  with run have "consume_positionals args (st\<lparr>st_extras := st_extras st @ [opt]\<rparr>) = Inr st'"
    by (simp add: consume_optional_def)
  then show ?thesis using ext[OF init] pos by (rule consume_positionals_rule)
next
  case (Some a)
  show ?thesis
  proof (cases "nargs a")
    case NargsNone
    with run Some obtain x others s1 where args: "args = x # others"
      and t: "take_action a [x] st = Inr s1" and r: "consume_positionals others s1 = Inr st'"
      by (auto simp: consume_optional_def split: list.splits sum.splits)
    have "I s1" using take[OF Some t] NargsNone by simp
    with r show ?thesis using pos by (rule consume_positionals_rule)
  next
    case NargsZero
    with run Some obtain s1 where t: "take_action a [] st = Inr s1"
      and r: "consume_positionals args s1 = Inr st'"
      by (auto simp: consume_optional_def split: list.splits sum.splits)
    have "I s1" using take[OF Some t] NargsZero by simp
    with r show ?thesis using pos by (rule consume_positionals_rule)
  next
    case NargsStar
    with run Some have "take_action a args st = Inr st'"
      by (simp add: consume_optional_def)
    then show ?thesis using take[OF Some] NargsStar by simp
  qed
qed

lemma consume_items_rule:
  assumes run: "consume_items actions items st = Inr st'" and init: "I st"
    and take: "\<And>opt args a xs s s'. Optional opt args \<in> set items
                  \<Longrightarrow> find (\<lambda>x. opt \<in> set (option_strings x)) actions = Some a
                  \<Longrightarrow> I s \<Longrightarrow> take_action a xs s = Inr s'
                  \<Longrightarrow> (nargs a = NargsNone \<longrightarrow> (\<exists>x. xs = [x])) \<Longrightarrow> (nargs a = NargsZero \<longrightarrow> xs = [])
                  \<Longrightarrow> I s'"
    and pos: "\<And>x s s'. I s \<Longrightarrow> consume_positional x s = Inr s' \<Longrightarrow> I s'"
    and ext: "\<And>x s. I s \<Longrightarrow> I (s\<lparr>st_extras := st_extras s @ [x]\<rparr>)"
  shows "I st'"
  using run init take
proof (induction items arbitrary: st)
  case Nil
  then show ?case by simp
next
  case (Cons item items)
  show ?case
  proof (cases item)
    case (Positional x)
    with Cons.prems(1) obtain s1 where p: "consume_positional x st = Inr s1"
      and r: "consume_items actions items s1 = Inr st'"
      by (auto split: sum.splits)
    have "I s1" using pos[OF Cons.prems(2) p] .
    show ?thesis
      by (rule Cons.IH[OF r \<open>I s1\<close>]) (rule Cons.prems(3), auto)
  next
    case (Optional opt args)
    with Cons.prems(1) obtain s1 where p: "consume_optional actions opt args st = Inr s1"
      and r: "consume_items actions items s1 = Inr st'"
      by (auto split: sum.splits)
    have "I s1"
    proof (rule consume_optional_rule[where I = I, OF p Cons.prems(2)])
      fix a xs s'
      assume "find (\<lambda>x. opt \<in> set (option_strings x)) actions = Some a"
        "take_action a xs st = Inr s'" "nargs a = NargsNone \<longrightarrow> (\<exists>x. xs = [x])"
        "nargs a = NargsZero \<longrightarrow> xs = []"
      then show "I s'"
        using Cons.prems(3)[of opt args a st xs s'] Cons.prems(2) Optional by simp
    qed (use pos ext in auto)
    show ?thesis
      by (rule Cons.IH[OF r \<open>I s1\<close>]) (rule Cons.prems(3), auto)
  qed
qed

lemma consume_items_append:
  "consume_items actions (xs @ ys) st =
     (case consume_items actions xs st of Inl e \<Rightarrow> Inl e | Inr st' \<Rightarrow> consume_items actions ys st')"
proof (induction xs arbitrary: st)
  case Nil
  then show ?case by simp
next
  case (Cons x xs)
  then show ?case by (cases x) (auto split: sum.splits)
qed

lemma getattr_setattr:
  "getattr (setattr ns k v) d = (if d = k then Some v else getattr ns d)"
  by (simp add: getattr_def setattr_def update_conv')

lemma hasattr_getattr: "hasattr ns d \<longleftrightarrow> getattr ns d \<noteq> None"
  by (simp add: hasattr_def getattr_def)

lemma take_action_store_const:
  assumes "take_action a args st = Inr st'" and "action_class a = StoreConstAction"
  shows "st' = st\<lparr>st_namespace := setattr (st_namespace st) (dest a) (const_value a),
                   st_seen := a # st_seen st\<rparr>"
  using assms
  by (auto simp: take_action_def call_action_def split: sum.splits)

lemma take_action_store_one:
  assumes "take_action a [x] st = Inr st'" and "action_class a = StoreAction"
    and "nargs a = NargsNone"
  shows "st' = st\<lparr>st_namespace := setattr (st_namespace st) (dest a) (PyStr x),
                   st_seen := a # st_seen st\<rparr>"
  using assms
  by (auto simp: take_action_def call_action_def get_values_def split: sum.splits option.splits)

lemma positional_actions:
  "filter (\<lambda>action. option_strings action = []) parser_actions = [positional ''mdpath'']"
  unfolding parser_actions_eq by (simp add: positional_def)

lemma find_parser_action:
  assumes "find (\<lambda>x. opt \<in> set (option_strings x)) parser_actions = Some a"
  shows "a \<in> set parser_actions \<and> opt \<in> set (option_strings a)"
  using assms by (auto simp: find_Some_iff)

text \<open>
  An attribute other than \<^verbatim>\<open>mdpath\<close> keeps its value as long as every action that
  writes it stores that same value.
\<close>

lemma consume_positional_stable:
  assumes run: "consume_positional x s = Inr s'"
    and pos: "set (st_positionals s) \<subseteq> {positional ''mdpath''}"
    and d: "d \<noteq> ''mdpath''"
  shows "getattr (st_namespace s') d = getattr (st_namespace s) d
         \<and> set (st_positionals s') \<subseteq> {positional ''mdpath''}"
proof (cases "st_positionals s")
  case Nil
  with run show ?thesis by (auto simp: consume_positional_def)
next
  case (Cons a rest)
  with pos have a: "a = positional ''mdpath''" and rest: "set rest \<subseteq> {positional ''mdpath''}"
    by auto
  from run Cons have "take_action a [x] (s\<lparr>st_positionals := rest\<rparr>) = Inr s'"
    by (simp add: consume_positional_def)
  from take_action_Inr[OF this] obtain v where
    "s' = s\<lparr>st_positionals := rest, st_namespace := setattr (st_namespace s) (dest a) v,
            st_seen := a # st_seen s\<rparr>"
    by auto
  with a rest d show ?thesis by (simp add: getattr_setattr positional_def)
qed

lemma consume_positionals_stable:
  assumes run: "consume_positionals xs s = Inr s'"
    and pos: "set (st_positionals s) \<subseteq> {positional ''mdpath''}"
    and d: "d \<noteq> ''mdpath''"
  shows "getattr (st_namespace s') d = getattr (st_namespace s) d
         \<and> set (st_positionals s') \<subseteq> {positional ''mdpath''}"
  by (rule consume_positionals_rule[where I = "\<lambda>t. getattr (st_namespace t) d = getattr (st_namespace s) d
         \<and> set (st_positionals t) \<subseteq> {positional ''mdpath''}", OF run])
     (use pos d consume_positional_stable in auto)

lemma consume_items_stable:
  assumes run: "consume_items parser_actions items st = Inr st'"
    and init: "getattr (st_namespace st) d = Some v"
    and pos: "set (st_positionals st) \<subseteq> {positional ''mdpath''}"
    and d: "d \<noteq> ''mdpath''"
    and writers: "\<And>opt args a. Optional opt args \<in> set items \<Longrightarrow> a \<in> set parser_actions
                    \<Longrightarrow> opt \<in> set (option_strings a) \<Longrightarrow> dest a = d
                    \<Longrightarrow> action_class a = StoreConstAction \<and> const_value a = v"
  shows "getattr (st_namespace st') d = Some v
         \<and> set (st_positionals st') \<subseteq> {positional ''mdpath''}"
proof (rule consume_items_rule[where I = "\<lambda>t. getattr (st_namespace t) d = Some v
         \<and> set (st_positionals t) \<subseteq> {positional ''mdpath''}", OF run])
  show "getattr (st_namespace st) d = Some v \<and> set (st_positionals st) \<subseteq> {positional ''mdpath''}"
    using init pos by simp
next
  fix opt args a xs s s'
  assume item: "Optional opt args \<in> set items"
    and f: "find (\<lambda>x. opt \<in> set (option_strings x)) parser_actions = Some a"
    and I: "getattr (st_namespace s) d = Some v \<and> set (st_positionals s) \<subseteq> {positional ''mdpath''}"
    and t: "take_action a xs s = Inr s'"
  note fa = find_parser_action[OF f]
  show "getattr (st_namespace s') d = Some v \<and> set (st_positionals s') \<subseteq> {positional ''mdpath''}"
  proof (cases "dest a = d")
    case True
    with writers[OF item] fa have "action_class a = StoreConstAction" "const_value a = v" by auto
    with take_action_store_const[OF t] True I show ?thesis by (simp add: getattr_setattr)
  next
    case False
    with take_action_Inr[OF t] I show ?thesis by (auto simp: getattr_setattr)
  qed
next
  fix x s s'
  assume "getattr (st_namespace s) d = Some v \<and> set (st_positionals s) \<subseteq> {positional ''mdpath''}"
    "consume_positional x s = Inr s'"
  then show "getattr (st_namespace s') d = Some v \<and> set (st_positionals s') \<subseteq> {positional ''mdpath''}"
    using consume_positional_stable[of x s s' d] d by auto
next
  fix x s
  assume "getattr (st_namespace s) d = Some v \<and> set (st_positionals s) \<subseteq> {positional ''mdpath''}"
  then show "getattr (st_namespace (s\<lparr>st_extras := st_extras s @ [x]\<rparr>)) d = Some v \<and>
           set (st_positionals (s\<lparr>st_extras := st_extras s @ [x]\<rparr>)) \<subseteq> {positional ''mdpath''}"
    by simp
qed

lemma consume_items_positionals:
  assumes run: "consume_items parser_actions items st = Inr st'"
    and pos: "set (st_positionals st) \<subseteq> {positional ''mdpath''}"
  shows "set (st_positionals st') \<subseteq> {positional ''mdpath''}"
proof (rule consume_items_rule[where I = "\<lambda>t. set (st_positionals t) \<subseteq> {positional ''mdpath''}", OF run pos])
  fix opt args a xs s s'
  assume "set (st_positionals s) \<subseteq> {positional ''mdpath''}" "take_action a xs s = Inr s'"
  then show "set (st_positionals s') \<subseteq> {positional ''mdpath''}"
    using take_action_Inr[of a xs s s'] by auto
next
  fix x s s'
  assume "set (st_positionals s) \<subseteq> {positional ''mdpath''}" "consume_positional x s = Inr s'"
  then show "set (st_positionals s') \<subseteq> {positional ''mdpath''}"
    using consume_positional_stable[of x s s' "''help''"] by auto
qed simp

text \<open>What a successful \<^verbatim>\<open>parse_args\<close> says about the run of the loop.\<close>

lemma parse_args_Inr:
  assumes "parse_args parser_actions argv Arguments = Inr ns"
  shows "\<exists>st'. consume_items parser_actions argv
             \<lparr>st_namespace = add_defaults parser_actions Arguments,
              st_positionals = [positional ''mdpath''],
              st_seen = [], st_extras = []\<rparr> = Inr st'
          \<and> ns = st_namespace st' \<and> st_extras st' = []
          \<and> List.member (st_seen st') (positional ''mdpath'')"
proof -
  from assms obtain st' where run: "consume_items parser_actions argv
             \<lparr>st_namespace = add_defaults parser_actions Arguments,
              st_positionals = [positional ''mdpath''],
              st_seen = [], st_extras = []\<rparr> = Inr st'"
    and req: "filter (\<lambda>action. required action \<and> \<not> List.member (st_seen st') action) parser_actions = []"
    and rest: "st_extras st' = []" "ns = st_namespace st'"
    by (auto simp: parse_args_def positional_actions split: sum.splits list.splits if_splits)
  have "positional ''mdpath'' \<in> set parser_actions"
    unfolding parser_actions_eq by (simp add: positional_def)
  moreover have "required (positional ''mdpath'')" by (simp add: positional_def)
  ultimately have "List.member (st_seen st') (positional ''mdpath'')"
    using req by (auto simp: filter_empty_conv)
  with run rest show ?thesis by auto
qed

subsection \<open>A successful parse leaves a complete namespace\<close>

lemma loglevel_writer:
  assumes "a \<in> set parser_actions" and "dest a = ''loglevel''"
  shows "action_class a = StoreAction \<and> nargs a = NargsNone"
  using assms unfolding parser_actions_eq by auto

lemma optional_not_mdpath:
  assumes "a \<in> set parser_actions" and "opt \<in> set (option_strings a)"
  shows "dest a \<noteq> ''mdpath''"
  using assms unfolding parser_actions_eq by auto

lemma consume_items_typed:
  assumes run: "consume_items parser_actions items st = Inr st'"
    and init: "(\<forall>d \<in> set ds. getattr (st_namespace st) d \<noteq> None)
       \<and> (\<exists>l. getattr (st_namespace st) ''loglevel'' = Some (PyStr l))
       \<and> set (st_positionals st) \<subseteq> {positional ''mdpath''}
       \<and> (List.member (st_seen st) (positional ''mdpath'')
            \<longrightarrow> (\<exists>p. getattr (st_namespace st) ''mdpath'' = Some (PyStr p)))"
  shows "(\<forall>d \<in> set ds. getattr (st_namespace st') d \<noteq> None)
       \<and> (\<exists>l. getattr (st_namespace st') ''loglevel'' = Some (PyStr l))
       \<and> set (st_positionals st') \<subseteq> {positional ''mdpath''}
       \<and> (List.member (st_seen st') (positional ''mdpath'')
            \<longrightarrow> (\<exists>p. getattr (st_namespace st') ''mdpath'' = Some (PyStr p)))"
proof (rule consume_items_rule[where I = "\<lambda>t. (\<forall>d \<in> set ds. getattr (st_namespace t) d \<noteq> None)
       \<and> (\<exists>l. getattr (st_namespace t) ''loglevel'' = Some (PyStr l))
       \<and> set (st_positionals t) \<subseteq> {positional ''mdpath''}
       \<and> (List.member (st_seen t) (positional ''mdpath'')
            \<longrightarrow> (\<exists>p. getattr (st_namespace t) ''mdpath'' = Some (PyStr p)))", OF run init])
  fix opt args a xs s s'
  assume f: "find (\<lambda>x. opt \<in> set (option_strings x)) parser_actions = Some a"
    and I: "(\<forall>d \<in> set ds. getattr (st_namespace s) d \<noteq> None)
       \<and> (\<exists>l. getattr (st_namespace s) ''loglevel'' = Some (PyStr l))
       \<and> set (st_positionals s) \<subseteq> {positional ''mdpath''}
       \<and> (List.member (st_seen s) (positional ''mdpath'')
            \<longrightarrow> (\<exists>p. getattr (st_namespace s) ''mdpath'' = Some (PyStr p)))"
    and t: "take_action a xs s = Inr s'"
    and n1: "nargs a = NargsNone \<longrightarrow> (\<exists>x. xs = [x])"
  note fa = find_parser_action[OF f]
  from take_action_Inr[OF t] obtain v where s': "s' = s\<lparr>st_namespace := setattr (st_namespace s) (dest a) v,
                        st_seen := a # st_seen s\<rparr>" by auto
  have nm: "dest a \<noteq> ''mdpath''" using optional_not_mdpath fa by blast
  have np: "a \<noteq> positional ''mdpath''" using nm by (auto simp: positional_def)
  have ll: "\<exists>l. getattr (st_namespace s') ''loglevel'' = Some (PyStr l)"
  proof (cases "dest a = ''loglevel''")
    case True
    with loglevel_writer fa have c: "action_class a = StoreAction" "nargs a = NargsNone" by auto
    with n1 obtain x where "xs = [x]" by auto
    with take_action_store_one[of a x s s'] t c True show ?thesis by (simp add: getattr_setattr)
  next
    case False
    with s' I show ?thesis by (simp add: getattr_setattr)
  qed
  show "(\<forall>d \<in> set ds. getattr (st_namespace s') d \<noteq> None)
       \<and> (\<exists>l. getattr (st_namespace s') ''loglevel'' = Some (PyStr l))
       \<and> set (st_positionals s') \<subseteq> {positional ''mdpath''}
       \<and> (List.member (st_seen s') (positional ''mdpath'')
            \<longrightarrow> (\<exists>p. getattr (st_namespace s') ''mdpath'' = Some (PyStr p)))"
    using ll I s' nm np by (auto simp: getattr_setattr)
next
  fix x s s'
  assume I: "(\<forall>d \<in> set ds. getattr (st_namespace s) d \<noteq> None)
       \<and> (\<exists>l. getattr (st_namespace s) ''loglevel'' = Some (PyStr l))
       \<and> set (st_positionals s) \<subseteq> {positional ''mdpath''}
       \<and> (List.member (st_seen s) (positional ''mdpath'')
            \<longrightarrow> (\<exists>p. getattr (st_namespace s) ''mdpath'' = Some (PyStr p)))"
    and c: "consume_positional x s = Inr s'"
  show "(\<forall>d \<in> set ds. getattr (st_namespace s') d \<noteq> None)
       \<and> (\<exists>l. getattr (st_namespace s') ''loglevel'' = Some (PyStr l))
       \<and> set (st_positionals s') \<subseteq> {positional ''mdpath''}
       \<and> (List.member (st_seen s') (positional ''mdpath'')
            \<longrightarrow> (\<exists>p. getattr (st_namespace s') ''mdpath'' = Some (PyStr p)))"
  proof (cases "st_positionals s")
    case Nil
    with c I show ?thesis by (auto simp: consume_positional_def)
  next
    case (Cons a rest)
    with I have a: "a = positional ''mdpath''" and rest: "set rest \<subseteq> {positional ''mdpath''}"
      by auto
    from c Cons have t: "take_action a [x] (s\<lparr>st_positionals := rest\<rparr>) = Inr s'"
      by (simp add: consume_positional_def)
    have "action_class a = StoreAction" "nargs a = NargsNone" "dest a = ''mdpath''"
      using a by (simp_all add: positional_def)
    from take_action_store_one[OF t this(1,2)] this(3) I rest
    show ?thesis by (auto simp: getattr_setattr)
  qed
next
  fix x s
  assume "(\<forall>d \<in> set ds. getattr (st_namespace s) d \<noteq> None)
       \<and> (\<exists>l. getattr (st_namespace s) ''loglevel'' = Some (PyStr l))
       \<and> set (st_positionals s) \<subseteq> {positional ''mdpath''}
       \<and> (List.member (st_seen s) (positional ''mdpath'')
            \<longrightarrow> (\<exists>p. getattr (st_namespace s) ''mdpath'' = Some (PyStr p)))"
  then show "(\<forall>d \<in> set ds. getattr (st_namespace (s\<lparr>st_extras := st_extras s @ [x]\<rparr>)) d \<noteq> None)
       \<and> (\<exists>l. getattr (st_namespace (s\<lparr>st_extras := st_extras s @ [x]\<rparr>)) ''loglevel'' = Some (PyStr l))
       \<and> set (st_positionals (s\<lparr>st_extras := st_extras s @ [x]\<rparr>)) \<subseteq> {positional ''mdpath''}
       \<and> (List.member (st_seen (s\<lparr>st_extras := st_extras s @ [x]\<rparr>)) (positional ''mdpath'')
            \<longrightarrow> (\<exists>p. getattr (st_namespace (s\<lparr>st_extras := st_extras s @ [x]\<rparr>)) ''mdpath'' = Some (PyStr p)))"
    by simp
qed

lemma parse_args_typed:
  assumes "parse_args parser_actions argv Arguments = Inr ns"
  shows "(\<forall>d \<in> set [''heading_anchors'', ''ignore_invalid_url'', ''generated_by'', ''root_page'',
     ''render_mermaid'', ''diagram_output_format'', ''webui_links'', ''domain'', ''path'',
     ''username'', ''apikey'', ''space'', ''headers'', ''local'']. getattr ns d \<noteq> None)
       \<and> (\<exists>l. getattr ns ''loglevel'' = Some (PyStr l))
       \<and> (\<exists>p. getattr ns ''mdpath'' = Some (PyStr p))"
proof -
  from parse_args_Inr[OF assms] obtain st' where run: "consume_items parser_actions argv
             \<lparr>st_namespace = add_defaults parser_actions Arguments,
              st_positionals = [positional ''mdpath''],
              st_seen = [], st_extras = []\<rparr> = Inr st'"
    and ns: "ns = st_namespace st'" and seen: "List.member (st_seen st') (positional ''mdpath'')"
    by auto
  show ?thesis
    using consume_items_typed[OF run, of "[''heading_anchors'', ''ignore_invalid_url'', ''generated_by'', ''root_page'',
     ''render_mermaid'', ''diagram_output_format'', ''webui_links'', ''domain'', ''path'',
     ''username'', ''apikey'', ''space'', ''headers'', ''local'']"] ns seen
    unfolding initial_namespace
    by (simp add: getattr_def)
qed

lemma parse_args_config:
  assumes "parse_args parser_actions argv Arguments = Inr ns"
  shows "\<exists>p l options properties local.
           getattr ns ''mdpath'' = Some (PyStr p) \<and> getattr ns ''loglevel'' = Some (PyStr l)
         \<and> make_options ns = Some options \<and> make_properties ns = Some properties
         \<and> getattr ns ''local'' = Some local"
proof -
  from parse_args_typed[OF assms] obtain p l where
    p: "getattr ns ''mdpath'' = Some (PyStr p)" and l: "getattr ns ''loglevel'' = Some (PyStr l)"
    and pres: "\<forall>d \<in> set [''heading_anchors'', ''ignore_invalid_url'', ''generated_by'', ''root_page'',
     ''render_mermaid'', ''diagram_output_format'', ''webui_links'', ''domain'', ''path'',
     ''username'', ''apikey'', ''space'', ''headers'', ''local'']. getattr ns d \<noteq> None"
    by blast
  from pres obtain ha iiu gb rp rm dof wl where o:
    "getattr ns ''heading_anchors'' = Some ha" "getattr ns ''ignore_invalid_url'' = Some iiu"
    "getattr ns ''generated_by'' = Some gb" "getattr ns ''root_page'' = Some rp"
    "getattr ns ''render_mermaid'' = Some rm" "getattr ns ''diagram_output_format'' = Some dof"
    "getattr ns ''webui_links'' = Some wl"
    by auto
  from pres obtain d pa u a sp h local where pr:
    "getattr ns ''domain'' = Some d" "getattr ns ''path'' = Some pa"
    "getattr ns ''username'' = Some u" "getattr ns ''apikey'' = Some a"
    "getattr ns ''space'' = Some sp" "getattr ns ''headers'' = Some h"
    "getattr ns ''local'' = Some local"
    by auto
  have mo: "make_options ns = Some \<lparr>heading_anchors = ha, ignore_invalid_url = iiu, generated_by = gb,
             root_page_id = rp, render_mermaid = rm, diagram_output_format = dof,
             webui_links = wl\<rparr>"
    by (simp add: make_options_def o)
  have mp: "make_properties ns = Some \<lparr>prop_domain = d, prop_base_path = pa, prop_user_name = u,
             prop_api_key = a, prop_space_key = sp, prop_headers = h\<rparr>"
    by (simp add: make_properties_def pr)
  from p l mo mp pr(7) show ?thesis by blast
qed

lemma main_dispatch:
  assumes parse: "parse_args parser_actions argv Arguments = Inr ns"
    and p: "getattr ns ''mdpath'' = Some (PyStr p)"
    and l: "getattr ns ''loglevel'' = Some (PyStr l)"
    and mo: "make_options ns = Some options"
    and mp: "make_properties ns = Some properties"
    and lo: "getattr ns ''local'' = Some local"
  shows "main c argv w =
           dispatch c (truthy local) options properties p
             (w, [BasicConfig (logging_getattr (str_upper l) logging_INFO) logging_format])"
proof -
  have mo': "make_options (setattr ns ''mdpath'' (PyPath p)) = make_options ns"
    by (simp add: make_options_def getattr_setattr)
  have mp': "make_properties (setattr ns ''mdpath'' (PyPath p)) = make_properties ns"
    by (simp add: make_properties_def getattr_setattr)
  show ?thesis
    by (simp add: main_def parse resolve_mdpath_def p logging_level_def l mo' mp' mo mp
        getattr_setattr lo)
qed

subsection \<open>Writers of single attributes\<close>

lemma writers_headers:
  "\<forall>a \<in> set parser_actions. dest a = ''headers'' \<longrightarrow> option_strings a = [''--headers'']"
  unfolding parser_actions_eq by simp

lemma writers_render_mermaid:
  "\<forall>a \<in> set parser_actions. dest a = ''render_mermaid'' \<longrightarrow>
     action_class a = StoreConstAction \<and> nargs a = NargsZero
     \<and> (option_strings a = [''--render-mermaid''] \<and> const_value a = PyBool True
        \<or> option_strings a = [''--no-render-mermaid''] \<and> const_value a = PyBool False)"
  unfolding parser_actions_eq by simp

lemma writers_generated_by:
  "\<forall>a \<in> set parser_actions. dest a = ''generated_by'' \<longrightarrow>
     (option_strings a = [''--generated-by''] \<and> action_class a = StoreAction \<and> nargs a = NargsNone
      \<or> option_strings a = [''--no-generated-by''] \<and> action_class a = StoreConstAction
          \<and> nargs a = NargsZero \<and> const_value a = PyNone)"
  unfolding parser_actions_eq by simp

lemma writers_loglevel:
  "\<forall>a \<in> set parser_actions. dest a = ''loglevel'' \<longrightarrow>
     option_strings a = [''-l'', ''--loglevel''] \<and> action_class a = StoreAction \<and> nargs a = NargsNone"
  unfolding parser_actions_eq by simp

lemma writers_local:
  "\<forall>a \<in> set parser_actions. dest a = ''local'' \<longrightarrow>
     option_strings a = [''--local''] \<and> action_class a = StoreConstAction \<and> nargs a = NargsZero
     \<and> const_value a = PyBool True"
  unfolding parser_actions_eq by simp

lemma find_headers:
  "find (\<lambda>x. ''--headers'' \<in> set (option_strings x)) parser_actions
     = Some (kwargs_append [''--headers''])"
  unfolding parser_actions_eq by (simp add: ctor_defs)

lemma find_local:
  "find (\<lambda>x. ''--local'' \<in> set (option_strings x)) parser_actions
     = Some (store_true [''--local''] None (PyBool False))"
  unfolding parser_actions_eq by (simp add: ctor_defs)

lemma find_render_mermaid:
  "find (\<lambda>x. ''--render-mermaid'' \<in> set (option_strings x)) parser_actions
     = Some (store_true [''--render-mermaid''] (Some ''render_mermaid'') (PyBool True))"
  unfolding parser_actions_eq by (simp add: ctor_defs)

lemma find_no_render_mermaid:
  "find (\<lambda>x. ''--no-render-mermaid'' \<in> set (option_strings x)) parser_actions
     = Some (store_false [''--no-render-mermaid''] (Some ''render_mermaid'') (PyBool True))"
  unfolding parser_actions_eq by (simp add: ctor_defs)

lemma find_no_generated_by:
  "find (\<lambda>x. ''--no-generated-by'' \<in> set (option_strings x)) parser_actions
     = Some (store_const [''--no-generated-by''] (Some ''generated_by'') PyNone PyNone)"
  unfolding parser_actions_eq by (simp add: ctor_defs)

lemma find_generated_by:
  "find (\<lambda>x. ''--generated-by'' \<in> set (option_strings x)) parser_actions
     = Some (store [''--generated-by''] None
        (PyStr ''This page has been generated with a tool.'') None)"
  unfolding parser_actions_eq by (simp add: ctor_defs)

lemma find_l:
  "find (\<lambda>x. ''-l'' \<in> set (option_strings x)) parser_actions
     = Some (store [''-l'', ''--loglevel''] None (PyStr ''INFO'')
         (Some [''debug'', ''info'', ''warning'', ''error'', ''critical'']))"
  unfolding parser_actions_eq by (simp add: ctor_defs)

lemma find_loglevel:
  "find (\<lambda>x. ''--loglevel'' \<in> set (option_strings x)) parser_actions
     = Some (store [''-l'', ''--loglevel''] None (PyStr ''INFO'')
         (Some [''debug'', ''info'', ''warning'', ''error'', ''critical'']))"
  unfolding parser_actions_eq by (simp add: ctor_defs)

text \<open>What one occurrence of a constant-storing flag does.\<close>

lemma consume_optional_flag:
  assumes run: "consume_optional parser_actions opt args st = Inr st1"
    and f: "find (\<lambda>x. opt \<in> set (option_strings x)) parser_actions = Some a"
    and a: "action_class a = StoreConstAction" "nargs a = NargsZero" "dest a \<noteq> ''mdpath''"
    and pos: "set (st_positionals st) \<subseteq> {positional ''mdpath''}"
  shows "getattr (st_namespace st1) (dest a) = Some (const_value a)"
proof -
  from run f a(2) obtain s1 where t: "take_action a [] st = Inr s1"
    and r: "consume_positionals args s1 = Inr st1"
    by (auto simp: consume_optional_def split: sum.splits)
  from take_action_store_const[OF t a(1)] pos
  have "getattr (st_namespace s1) (dest a) = Some (const_value a)"
    "set (st_positionals s1) \<subseteq> {positional ''mdpath''}"
    by (simp_all add: getattr_setattr)
  with consume_positionals_stable[OF r this(2) a(3)] show ?thesis by simp
qed

lemma consume_optional_store:
  assumes run: "consume_optional parser_actions opt (x # others) st = Inr st1"
    and f: "find (\<lambda>x. opt \<in> set (option_strings x)) parser_actions = Some a"
    and a: "action_class a = StoreAction" "nargs a = NargsNone" "dest a \<noteq> ''mdpath''"
    and pos: "set (st_positionals st) \<subseteq> {positional ''mdpath''}"
  shows "getattr (st_namespace st1) (dest a) = Some (PyStr x)"
proof -
  from run f a(2) obtain s1 where t: "take_action a [x] st = Inr s1"
    and r: "consume_positionals others s1 = Inr st1"
    by (auto simp: consume_optional_def split: sum.splits)
  from take_action_store_one[OF t a(1,2)] pos
  have "getattr (st_namespace s1) (dest a) = Some (PyStr x)"
    "set (st_positionals s1) \<subseteq> {positional ''mdpath''}"
    by (simp_all add: getattr_setattr)
  with consume_positionals_stable[OF r this(2) a(3)] show ?thesis by simp
qed

lemma check_values_no_choices: "choices a = None \<Longrightarrow> check_values a xs = None"
  by (induction xs) (simp_all add: check_value_def)

lemma consume_optional_headers:
  "consume_optional parser_actions ''--headers'' xs st =
     (case KwargsAppendAction_call (kwargs_append [''--headers'']) (st_namespace st) xs of
        Inl e \<Rightarrow> Inl e
      | Inr ns \<Rightarrow> Inr (st\<lparr>st_namespace := ns,
                           st_seen := kwargs_append [''--headers''] # st_seen st\<rparr>))"
proof -
  have n: "nargs (kwargs_append [''--headers'']) = NargsStar"
    "action_class (kwargs_append [''--headers'']) = KwargsAppendAction"
    "choices (kwargs_append [''--headers'']) = None"
    by (simp_all add: kwargs_append_def)
  have gv: "get_values (kwargs_append [''--headers'']) xs = Inr (ValueList xs)"
    by (simp add: get_values_def n check_values_no_choices split: list.splits)
  show ?thesis
    by (simp add: consume_optional_def find_headers n take_action_def gv call_action_def)
qed

lemma consume_items_snoc_split:
  assumes "consume_items actions (pre @ item # post) st = Inr st'"
  shows "\<exists>s1 s2. consume_items actions pre st = Inr s1
               \<and> consume_items actions [item] s1 = Inr s2
               \<and> consume_items actions post s2 = Inr st'"
proof -
  have e: "consume_items actions (pre @ item # post) st =
     (case consume_items actions pre st of Inl e \<Rightarrow> Inl e
      | Inr s \<Rightarrow> consume_items actions (item # post) s)"
    by (rule consume_items_append)
  from assms e obtain s1 where s1: "consume_items actions pre st = Inr s1"
    and r: "consume_items actions (item # post) s1 = Inr st'"
    by (cases "consume_items actions pre st") simp_all
  have e2: "consume_items actions ([item] @ post) s1 =
     (case consume_items actions [item] s1 of Inl e \<Rightarrow> Inl e
      | Inr s \<Rightarrow> consume_items actions post s)"
    by (rule consume_items_append)
  from r e2 obtain s2 where "consume_items actions [item] s1 = Inr s2"
    and "consume_items actions post s2 = Inr st'"
    by (cases "consume_items actions [item] s1") simp_all
  with s1 show ?thesis by blast
qed

lemma consume_items_single_optional:
  "consume_items actions [Optional opt args] s = Inr s' \<Longrightarrow>
   consume_optional actions opt args s = Inr s'"
  by (cases "consume_optional actions opt args s") simp_all

lemma after_last_writer:
  assumes parse: "parse_args parser_actions (pre @ Optional opt args # post) Arguments = Inr ns"
    and item: "\<And>st st1. set (st_positionals st) \<subseteq> {positional ''mdpath''}
                 \<Longrightarrow> consume_optional parser_actions opt args st = Inr st1
                 \<Longrightarrow> getattr (st_namespace st1) d = Some v"
    and d: "d \<noteq> ''mdpath''"
    and writers: "\<And>opt' args' a. Optional opt' args' \<in> set post \<Longrightarrow> a \<in> set parser_actions
                    \<Longrightarrow> opt' \<in> set (option_strings a) \<Longrightarrow> dest a = d
                    \<Longrightarrow> action_class a = StoreConstAction \<and> const_value a = v"
  shows "getattr ns d = Some v"
proof -
  define st0 where "st0 = \<lparr>st_namespace = add_defaults parser_actions Arguments,
              st_positionals = [positional ''mdpath''],
              st_seen = [], st_extras = []\<rparr>"
  have p0: "set (st_positionals st0) \<subseteq> {positional ''mdpath''}" by (simp add: st0_def)
  from parse_args_Inr[OF parse] obtain st' where
    run: "consume_items parser_actions (pre @ Optional opt args # post) st0 = Inr st'"
    and ns: "ns = st_namespace st'"
    unfolding st0_def by blast
  from consume_items_snoc_split[OF run] obtain s1 s2 where
    r1: "consume_items parser_actions pre st0 = Inr s1"
    and r2: "consume_items parser_actions [Optional opt args] s1 = Inr s2"
    and r3: "consume_items parser_actions post s2 = Inr st'"
    by blast
  have p1: "set (st_positionals s1) \<subseteq> {positional ''mdpath''}"
    by (rule consume_items_positionals[OF r1 p0])
  have p2: "set (st_positionals s2) \<subseteq> {positional ''mdpath''}"
    by (rule consume_items_positionals[OF r2 p1])
  have v2: "getattr (st_namespace s2) d = Some v"
    by (rule item[OF p1 consume_items_single_optional[OF r2]])
  have "getattr (st_namespace st') d = Some v
         \<and> set (st_positionals st') \<subseteq> {positional ''mdpath''}"
    using r3 v2 p2 d writers by (rule consume_items_stable)
  with ns show ?thesis by simp
qed

lemma never_written:
  assumes parse: "parse_args parser_actions argv Arguments = Inr ns"
    and d: "d \<noteq> ''mdpath''"
    and init: "getattr (add_defaults parser_actions Arguments) d = Some v"
    and writers: "\<And>opt args a. Optional opt args \<in> set argv \<Longrightarrow> a \<in> set parser_actions
                    \<Longrightarrow> opt \<in> set (option_strings a) \<Longrightarrow> dest a = d
                    \<Longrightarrow> action_class a = StoreConstAction \<and> const_value a = v"
  shows "getattr ns d = Some v"
proof -
  define st0 where "st0 = \<lparr>st_namespace = add_defaults parser_actions Arguments,
              st_positionals = [positional ''mdpath''],
              st_seen = [], st_extras = []\<rparr>"
  have p0: "set (st_positionals st0) \<subseteq> {positional ''mdpath''}" by (simp add: st0_def)
  have v0: "getattr (st_namespace st0) d = Some v" using init by (simp add: st0_def)
  from parse_args_Inr[OF parse] obtain st' where
    run: "consume_items parser_actions argv st0 = Inr st'"
    and ns: "ns = st_namespace st'"
    unfolding st0_def by blast
  have "getattr (st_namespace st') d = Some v
         \<and> set (st_positionals st') \<subseteq> {positional ''mdpath''}"
    using run v0 p0 d writers by (rule consume_items_stable)
  with ns show ?thesis by simp
qed

lemma parse_path_only:
  "parse_args parser_actions [Positional p] Arguments =
     Inr [(''mdpath'', PyStr p), (''domain'', PyNone),
      (''path'', PyNone), (''username'', PyNone), (''apikey'', PyNone),
      (''space'', PyNone), (''loglevel'', PyStr ''INFO''),
      (''root_page'', PyNone),
      (''generated_by'', PyStr ''This page has been generated with a tool.''),
      (''render_mermaid'', PyBool True),
      (''diagram_output_format'', PyStr ''png''),
      (''heading_anchors'', PyBool False),
      (''ignore_invalid_url'', PyBool False), (''local'', PyBool False),
      (''headers'', PyNone), (''webui_links'', PyBool False)]"
proof -
  have c: "consume_items parser_actions [Positional p]
             \<lparr>st_namespace = add_defaults parser_actions Arguments,
              st_positionals = [positional ''mdpath''],
              st_seen = [], st_extras = []\<rparr>
        = Inr \<lparr>st_namespace = setattr (add_defaults parser_actions Arguments) ''mdpath'' (PyStr p),
              st_positionals = [],
              st_seen = [positional ''mdpath''], st_extras = []\<rparr>"
    by (simp add: consume_positional_def take_action_def get_values_def check_value_def
        call_action_def positional_def)
  have r: "filter (\<lambda>action. required action \<and> action \<noteq> positional ''mdpath'')
             parser_actions = []"
    unfolding parser_actions_eq by (simp add: positional_def)
  show ?thesis
    unfolding parse_args_def positional_actions c
    by (simp add: r initial_namespace setattr_def)
qed

lemma headers_absent:
  assumes parse: "parse_args parser_actions argv Arguments = Inr ns"
    and absent: "\<forall>xs. Optional ''--headers'' xs \<notin> set argv"
  shows "getattr ns ''headers'' = Some PyNone"
proof (rule never_written[OF parse])
  show "getattr (add_defaults parser_actions Arguments) ''headers'' = Some PyNone"
    unfolding initial_namespace by (simp add: getattr_def)
next
  fix opt args a
  assume "Optional opt args \<in> set argv" "a \<in> set parser_actions"
    "opt \<in> set (option_strings a)" "dest a = ''headers''"
  with writers_headers absent have False by fastforce
  then show "action_class a = StoreConstAction \<and> const_value a = PyNone" ..
qed simp

lemma headers_bare:
  assumes parse: "parse_args parser_actions (pre @ Optional ''--headers'' [] # post) Arguments = Inr ns"
    and last: "\<forall>xs. Optional ''--headers'' xs \<notin> set post"
  shows "getattr ns ''headers'' = Some (PyDict [])"
proof (rule after_last_writer[OF parse])
  fix st st1
  assume "consume_optional parser_actions ''--headers'' [] st = Inr st1"
  then show "getattr (st_namespace st1) ''headers'' = Some (PyDict [])"
    by (auto simp: consume_optional_headers KwargsAppendAction_call_def dict_def kwargs_append_def
        infer_dest_def is_long_option_def getattr_setattr)
next
  fix opt args a
  assume "Optional opt args \<in> set post" "a \<in> set parser_actions"
    "opt \<in> set (option_strings a)" "dest a = ''headers''"
  with writers_headers last have False by fastforce
  then show "action_class a = StoreConstAction \<and> const_value a = PyDict []" ..
qed simp

section \<open>The header flag on the command line\<close>

lemma properties_headers:
  assumes "make_properties ns = Some properties"
  shows "getattr ns ''headers'' = Some (prop_headers properties)"
  using assms by (auto simp: make_properties_def split: Option.bind_splits)

lemma options_fields:
  assumes "make_options ns = Some options"
  shows "getattr ns ''render_mermaid'' = Some (render_mermaid options)
       \<and> getattr ns ''generated_by'' = Some (generated_by options)"
  using assms by (auto simp: make_options_def split: Option.bind_splits)

text \<open>
  Claim C4, as the code has it: when the header flag is absent from the command
  line, the \<^verbatim>\<open>headers\<close> attribute of the parsed arguments, and with it the header
  field of the connection properties, is \<^verbatim>\<open>None\<close> (the flag declares no default),
  not an empty map; and a command line without the flag parses.
\<close>

theorem absent_headers_flag_gives_None:
  assumes "parse_args parser_actions argv Arguments = Inr ns"
    and "\<forall>xs. Optional ''--headers'' xs \<notin> set argv"
  shows "getattr ns ''headers'' = Some PyNone
       \<and> (\<exists>properties. make_properties ns = Some properties \<and> prop_headers properties = PyNone)
       \<and> (\<exists>ns'. parse_args parser_actions [Positional p] Arguments = Inr ns')"
proof -
  have h: "getattr ns ''headers'' = Some PyNone"
    using assms by (rule headers_absent)
  from parse_args_config[OF assms(1)] obtain properties where
    mp: "make_properties ns = Some properties" by blast
  from properties_headers[OF mp] h have "prop_headers properties = PyNone" by simp
  with h mp show ?thesis by (simp add: parse_path_only)
qed

text \<open>The theorem at the command line \<^verbatim>\<open>doc.md --local\<close>.\<close>

theorem absent_headers_flag_gives_None_witness:
  "parse_args parser_actions [Positional ''doc.md'', Optional ''--local'' []] Arguments =
     Inr [(''mdpath'', PyStr ''doc.md''), (''domain'', PyNone),
      (''path'', PyNone), (''username'', PyNone), (''apikey'', PyNone),
      (''space'', PyNone), (''loglevel'', PyStr ''INFO''),
      (''root_page'', PyNone),
      (''generated_by'', PyStr ''This page has been generated with a tool.''),
      (''render_mermaid'', PyBool True),
      (''diagram_output_format'', PyStr ''png''),
      (''heading_anchors'', PyBool False),
      (''ignore_invalid_url'', PyBool False), (''local'', PyBool True),
      (''headers'', PyNone), (''webui_links'', PyBool False)]
   \<and> getattr [(''mdpath'', PyStr ''doc.md''), (''domain'', PyNone),
      (''path'', PyNone), (''username'', PyNone), (''apikey'', PyNone),
      (''space'', PyNone), (''loglevel'', PyStr ''INFO''),
      (''root_page'', PyNone),
      (''generated_by'', PyStr ''This page has been generated with a tool.''),
      (''render_mermaid'', PyBool True),
      (''diagram_output_format'', PyStr ''png''),
      (''heading_anchors'', PyBool False),
      (''ignore_invalid_url'', PyBool False), (''local'', PyBool True),
      (''headers'', PyNone), (''webui_links'', PyBool False)] ''headers'' = Some PyNone"
proof -
  have p: "parse_args parser_actions [Positional ''doc.md'', Optional ''--local'' []] Arguments =
     Inr [(''mdpath'', PyStr ''doc.md''), (''domain'', PyNone),
      (''path'', PyNone), (''username'', PyNone), (''apikey'', PyNone),
      (''space'', PyNone), (''loglevel'', PyStr ''INFO''),
      (''root_page'', PyNone),
      (''generated_by'', PyStr ''This page has been generated with a tool.''),
      (''render_mermaid'', PyBool True),
      (''diagram_output_format'', PyStr ''png''),
      (''heading_anchors'', PyBool False),
      (''ignore_invalid_url'', PyBool False), (''local'', PyBool True),
      (''headers'', PyNone), (''webui_links'', PyBool False)]"
    by code_simp
  have a: "\<forall>xs. Optional ''--headers'' xs \<notin> set [Positional ''doc.md'', Optional ''--local'' []]"
    by simp
  from absent_headers_flag_gives_None[OF p a] p show ?thesis by simp
qed

text \<open>
  For the command line \<^verbatim>\<open>doc.md\<close> the header attribute is \<^verbatim>\<open>None\<close>, which is not
  the empty dictionary.
\<close>

theorem absent_headers_flag_is_not_empty_map:
  "parse_args parser_actions [Positional ''doc.md''] Arguments =
     Inr [(''mdpath'', PyStr ''doc.md''), (''domain'', PyNone),
      (''path'', PyNone), (''username'', PyNone), (''apikey'', PyNone),
      (''space'', PyNone), (''loglevel'', PyStr ''INFO''),
      (''root_page'', PyNone),
      (''generated_by'', PyStr ''This page has been generated with a tool.''),
      (''render_mermaid'', PyBool True),
      (''diagram_output_format'', PyStr ''png''),
      (''heading_anchors'', PyBool False),
      (''ignore_invalid_url'', PyBool False), (''local'', PyBool False),
      (''headers'', PyNone), (''webui_links'', PyBool False)]
   \<and> PyNone \<noteq> PyDict []"
  by (simp add: parse_path_only)

text \<open>
  Claim C10: a bare \<^verbatim>\<open>--headers\<close>, with no token after it, makes the action
  succeed on the empty list and store the empty dictionary; when no later header
  flag follows, the parsed \<^verbatim>\<open>headers\<close> attribute is that empty dictionary, and it
  differs from the \<^verbatim>\<open>None\<close> of every command line without the flag.
\<close>

theorem bare_headers_flag_gives_empty_dict:
  assumes "parse_args parser_actions (pre @ Optional ''--headers'' [] # post) Arguments = Inr ns"
    and "\<forall>xs. Optional ''--headers'' xs \<notin> set post"
  shows "KwargsAppendAction_call self ns0 [] = Inr (setattr ns0 (dest self) (PyDict []))
       \<and> getattr ns ''headers'' = Some (PyDict [])
       \<and> (\<forall>argv' ns'. parse_args parser_actions argv' Arguments = Inr ns'
              \<and> (\<forall>xs. Optional ''--headers'' xs \<notin> set argv')
            \<longrightarrow> getattr ns' ''headers'' = Some PyNone
                \<and> getattr ns' ''headers'' \<noteq> getattr ns ''headers'')"
proof -
  have c: "KwargsAppendAction_call self ns0 [] = Inr (setattr ns0 (dest self) (PyDict []))"
    by (simp add: KwargsAppendAction_call_def dict_def)
  have h: "getattr ns ''headers'' = Some (PyDict [])"
    using assms by (rule headers_bare)
  show ?thesis using c h headers_absent by auto
qed

text \<open>The theorem at the command line \<^verbatim>\<open>doc.md --headers\<close>.\<close>

theorem bare_headers_flag_gives_empty_dict_witness:
  "parse_args parser_actions [Positional ''doc.md'', Optional ''--headers'' []] Arguments =
     Inr [(''mdpath'', PyStr ''doc.md''), (''domain'', PyNone),
      (''path'', PyNone), (''username'', PyNone), (''apikey'', PyNone),
      (''space'', PyNone), (''loglevel'', PyStr ''INFO''),
      (''root_page'', PyNone),
      (''generated_by'', PyStr ''This page has been generated with a tool.''),
      (''render_mermaid'', PyBool True),
      (''diagram_output_format'', PyStr ''png''),
      (''heading_anchors'', PyBool False),
      (''ignore_invalid_url'', PyBool False), (''local'', PyBool False),
      (''headers'', PyDict []), (''webui_links'', PyBool False)]
   \<and> getattr [(''mdpath'', PyStr ''doc.md''), (''domain'', PyNone),
      (''path'', PyNone), (''username'', PyNone), (''apikey'', PyNone),
      (''space'', PyNone), (''loglevel'', PyStr ''INFO''),
      (''root_page'', PyNone),
      (''generated_by'', PyStr ''This page has been generated with a tool.''),
      (''render_mermaid'', PyBool True),
      (''diagram_output_format'', PyStr ''png''),
      (''heading_anchors'', PyBool False),
      (''ignore_invalid_url'', PyBool False), (''local'', PyBool False),
      (''headers'', PyDict []), (''webui_links'', PyBool False)] ''headers'' = Some (PyDict [])"
proof -
  have p: "parse_args parser_actions ([Positional ''doc.md''] @ Optional ''--headers'' [] # []) Arguments =
     Inr [(''mdpath'', PyStr ''doc.md''), (''domain'', PyNone),
      (''path'', PyNone), (''username'', PyNone), (''apikey'', PyNone),
      (''space'', PyNone), (''loglevel'', PyStr ''INFO''),
      (''root_page'', PyNone),
      (''generated_by'', PyStr ''This page has been generated with a tool.''),
      (''render_mermaid'', PyBool True),
      (''diagram_output_format'', PyStr ''png''),
      (''heading_anchors'', PyBool False),
      (''ignore_invalid_url'', PyBool False), (''local'', PyBool False),
      (''headers'', PyDict []), (''webui_links'', PyBool False)]"
    by code_simp
  have a: "\<forall>xs. Optional ''--headers'' xs \<notin> set []" by simp
  from bare_headers_flag_gives_empty_dict[OF p a] p show ?thesis by simp
qed

section \<open>Pairs of flags with one destination\<close>

lemma render_mermaid_last:
  assumes parse: "parse_args parser_actions (pre @ Optional opt xs # post) Arguments = Inr ns"
    and f: "find (\<lambda>x. opt \<in> set (option_strings x)) parser_actions = Some a"
    and a: "action_class a = StoreConstAction" "nargs a = NargsZero"
      "dest a = ''render_mermaid''" "const_value a = PyBool b"
    and last: "\<forall>ys. Optional (if b then ''--no-render-mermaid'' else ''--render-mermaid'') ys \<notin> set post"
  shows "getattr ns ''render_mermaid'' = Some (PyBool b)"
proof (rule after_last_writer[OF parse])
  fix st st1
  assume "set (st_positionals st) \<subseteq> {positional ''mdpath''}"
    "consume_optional parser_actions opt xs st = Inr st1"
  from consume_optional_flag[OF this(2) f a(1,2) _ this(1)] a(3,4)
  show "getattr (st_namespace st1) ''render_mermaid'' = Some (PyBool b)" by simp
next
  fix opt' args' a'
  assume i: "Optional opt' args' \<in> set post" and m: "a' \<in> set parser_actions"
    and o: "opt' \<in> set (option_strings a')" and d: "dest a' = ''render_mermaid''"
  from writers_render_mermaid m d have
    w: "action_class a' = StoreConstAction"
       "option_strings a' = [''--render-mermaid''] \<and> const_value a' = PyBool True
        \<or> option_strings a' = [''--no-render-mermaid''] \<and> const_value a' = PyBool False"
    by blast+
  from w(2) o i last have "const_value a' = PyBool b"
    by (cases b) auto
  with w(1) show "action_class a' = StoreConstAction \<and> const_value a' = PyBool b" by simp
qed simp

lemma render_mermaid_default:
  assumes parse: "parse_args parser_actions argv Arguments = Inr ns"
    and no: "\<forall>ys. Optional ''--no-render-mermaid'' ys \<notin> set argv"
  shows "getattr ns ''render_mermaid'' = Some (PyBool True)"
proof (rule never_written[OF parse])
  show "getattr (add_defaults parser_actions Arguments) ''render_mermaid'' = Some (PyBool True)"
    unfolding initial_namespace by (simp add: getattr_def)
next
  fix opt' args' a'
  assume i: "Optional opt' args' \<in> set argv" and m: "a' \<in> set parser_actions"
    and o: "opt' \<in> set (option_strings a')" and d: "dest a' = ''render_mermaid''"
  from writers_render_mermaid m d have
    w: "action_class a' = StoreConstAction"
       "option_strings a' = [''--render-mermaid''] \<and> const_value a' = PyBool True
        \<or> option_strings a' = [''--no-render-mermaid''] \<and> const_value a' = PyBool False"
    by blast+
  from w(2) o i no have "const_value a' = PyBool True" by auto
  with w(1) show "action_class a' = StoreConstAction \<and> const_value a' = PyBool True" by simp
qed simp

lemma no_generated_by_last:
  assumes parse: "parse_args parser_actions (pre @ Optional ''--no-generated-by'' xs # post) Arguments = Inr ns"
    and last: "\<forall>ys. Optional ''--generated-by'' ys \<notin> set post"
  shows "getattr ns ''generated_by'' = Some PyNone"
proof (rule after_last_writer[OF parse])
  fix st st1
  assume "set (st_positionals st) \<subseteq> {positional ''mdpath''}"
    "consume_optional parser_actions ''--no-generated-by'' xs st = Inr st1"
  from consume_optional_flag[OF this(2) find_no_generated_by _ _ _ this(1)]
  show "getattr (st_namespace st1) ''generated_by'' = Some PyNone"
    by (simp add: store_const_def get_dest_def)
next
  fix opt' args' a'
  assume i: "Optional opt' args' \<in> set post" and m: "a' \<in> set parser_actions"
    and o: "opt' \<in> set (option_strings a')" and d: "dest a' = ''generated_by''"
  from writers_generated_by m d have
    "option_strings a' = [''--generated-by'']
      \<or> option_strings a' = [''--no-generated-by''] \<and> action_class a' = StoreConstAction
          \<and> const_value a' = PyNone"
    by blast
  with o i last show "action_class a' = StoreConstAction \<and> const_value a' = PyNone" by auto
qed simp

lemma generated_by_last:
  assumes parse: "parse_args parser_actions (pre @ Optional ''--generated-by'' (x # xs) # post) Arguments = Inr ns"
    and last: "\<forall>ys. Optional ''--generated-by'' ys \<notin> set post \<and> Optional ''--no-generated-by'' ys \<notin> set post"
  shows "getattr ns ''generated_by'' = Some (PyStr x)"
proof (rule after_last_writer[OF parse])
  fix st st1
  assume "set (st_positionals st) \<subseteq> {positional ''mdpath''}"
    "consume_optional parser_actions ''--generated-by'' (x # xs) st = Inr st1"
  from consume_optional_store[OF this(2) find_generated_by _ _ _ this(1)]
  show "getattr (st_namespace st1) ''generated_by'' = Some (PyStr x)"
    by (simp add: store_def get_dest_def infer_dest_def is_long_option_def)
next
  fix opt' args' a'
  assume i: "Optional opt' args' \<in> set post" and m: "a' \<in> set parser_actions"
    and o: "opt' \<in> set (option_strings a')" and d: "dest a' = ''generated_by''"
  from writers_generated_by m d have
    "option_strings a' = [''--generated-by''] \<or> option_strings a' = [''--no-generated-by'']"
    by blast
  with o i last have False by auto
  then show "action_class a' = StoreConstAction \<and> const_value a' = PyStr x" ..
qed simp

text \<open>
  Claim C6: of the two flags of a pair the one given last decides the attribute.
  After a successful parse, \<^verbatim>\<open>render_mermaid\<close> is false when
  \<^verbatim>\<open>--no-render-mermaid\<close> occurs with no \<^verbatim>\<open>--render-mermaid\<close> after it, true
  when \<^verbatim>\<open>--render-mermaid\<close> occurs with no \<^verbatim>\<open>--no-render-mermaid\<close> after it, and
  true when \<^verbatim>\<open>--no-render-mermaid\<close> does not occur at all; \<^verbatim>\<open>generated_by\<close> is
  \<^verbatim>\<open>None\<close> (neither the default text nor an empty string) when
  \<^verbatim>\<open>--no-generated-by\<close> occurs with no \<^verbatim>\<open>--generated-by\<close> after it, and the given
  text when \<^verbatim>\<open>--generated-by\<close> comes last; the rendering options take both values
  over unchanged.
\<close>

theorem last_flag_of_a_pair_wins:
  assumes "parse_args parser_actions argv Arguments = Inr ns"
  shows "(\<forall>pre xs post. argv = pre @ Optional ''--no-render-mermaid'' xs # post
            \<and> (\<forall>ys. Optional ''--render-mermaid'' ys \<notin> set post)
          \<longrightarrow> getattr ns ''render_mermaid'' = Some (PyBool False))
       \<and> (\<forall>pre xs post. argv = pre @ Optional ''--render-mermaid'' xs # post
            \<and> (\<forall>ys. Optional ''--no-render-mermaid'' ys \<notin> set post)
          \<longrightarrow> getattr ns ''render_mermaid'' = Some (PyBool True))
       \<and> ((\<forall>ys. Optional ''--no-render-mermaid'' ys \<notin> set argv)
          \<longrightarrow> getattr ns ''render_mermaid'' = Some (PyBool True))
       \<and> (\<forall>pre xs post. argv = pre @ Optional ''--no-generated-by'' xs # post
            \<and> (\<forall>ys. Optional ''--generated-by'' ys \<notin> set post)
          \<longrightarrow> getattr ns ''generated_by'' = Some PyNone)
       \<and> (\<forall>pre x xs post. argv = pre @ Optional ''--generated-by'' (x # xs) # post
            \<and> (\<forall>ys. Optional ''--generated-by'' ys \<notin> set post
                      \<and> Optional ''--no-generated-by'' ys \<notin> set post)
          \<longrightarrow> getattr ns ''generated_by'' = Some (PyStr x))
       \<and> (\<exists>options. make_options ns = Some options
            \<and> getattr ns ''render_mermaid'' = Some (render_mermaid options)
            \<and> getattr ns ''generated_by'' = Some (generated_by options))"
proof -
  have 1: "getattr ns ''render_mermaid'' = Some (PyBool False)"
    if "argv = pre @ Optional ''--no-render-mermaid'' xs # post"
      "\<forall>ys. Optional ''--render-mermaid'' ys \<notin> set post" for pre xs post
    using render_mermaid_last[of pre "''--no-render-mermaid''" xs post ns _ False]
      assms that find_no_render_mermaid
    by (simp add: store_false_def store_const_def get_dest_def)
  have 2: "getattr ns ''render_mermaid'' = Some (PyBool True)"
    if "argv = pre @ Optional ''--render-mermaid'' xs # post"
      "\<forall>ys. Optional ''--no-render-mermaid'' ys \<notin> set post" for pre xs post
    using render_mermaid_last[of pre "''--render-mermaid''" xs post ns _ True]
      assms that find_render_mermaid
    by (simp add: store_true_def store_const_def get_dest_def)
  have 3: "getattr ns ''render_mermaid'' = Some (PyBool True)"
    if "\<forall>ys. Optional ''--no-render-mermaid'' ys \<notin> set argv"
    using assms that by (rule render_mermaid_default)
  have 4: "getattr ns ''generated_by'' = Some PyNone"
    if "argv = pre @ Optional ''--no-generated-by'' xs # post"
      "\<forall>ys. Optional ''--generated-by'' ys \<notin> set post" for pre xs post
    using no_generated_by_last[of pre xs post ns] assms that by simp
  have 5: "getattr ns ''generated_by'' = Some (PyStr x)"
    if "argv = pre @ Optional ''--generated-by'' (x # xs) # post"
      "\<forall>ys. Optional ''--generated-by'' ys \<notin> set post
                      \<and> Optional ''--no-generated-by'' ys \<notin> set post" for pre x xs post
    using generated_by_last[of pre x xs post ns] assms that by simp
  from parse_args_config[OF assms] obtain options where "make_options ns = Some options"
    by blast
  with options_fields[OF this] have 6: "\<exists>options. make_options ns = Some options
            \<and> getattr ns ''render_mermaid'' = Some (render_mermaid options)
            \<and> getattr ns ''generated_by'' = Some (generated_by options)"
    by blast
  from 1 2 3 4 5 6 show ?thesis by blast
qed

text \<open>
  The theorem at the command line
  \<^verbatim>\<open>doc.md --render-mermaid --no-render-mermaid --no-generated-by\<close>.
\<close>

theorem last_flag_of_a_pair_wins_witness:
  "parse_args parser_actions
     [Positional ''doc.md'', Optional ''--render-mermaid'' [],
      Optional ''--no-render-mermaid'' [], Optional ''--no-generated-by'' []] Arguments =
     Inr [(''mdpath'', PyStr ''doc.md''), (''domain'', PyNone),
      (''path'', PyNone), (''username'', PyNone), (''apikey'', PyNone),
      (''space'', PyNone), (''loglevel'', PyStr ''INFO''),
      (''root_page'', PyNone),
      (''generated_by'', PyNone),
      (''render_mermaid'', PyBool False),
      (''diagram_output_format'', PyStr ''png''),
      (''heading_anchors'', PyBool False),
      (''ignore_invalid_url'', PyBool False), (''local'', PyBool False),
      (''headers'', PyNone), (''webui_links'', PyBool False)]
   \<and> getattr [(''mdpath'', PyStr ''doc.md''), (''domain'', PyNone),
      (''path'', PyNone), (''username'', PyNone), (''apikey'', PyNone),
      (''space'', PyNone), (''loglevel'', PyStr ''INFO''),
      (''root_page'', PyNone),
      (''generated_by'', PyNone),
      (''render_mermaid'', PyBool False),
      (''diagram_output_format'', PyStr ''png''),
      (''heading_anchors'', PyBool False),
      (''ignore_invalid_url'', PyBool False), (''local'', PyBool False),
      (''headers'', PyNone), (''webui_links'', PyBool False)] ''render_mermaid'' = Some (PyBool False)
   \<and> getattr [(''mdpath'', PyStr ''doc.md''), (''domain'', PyNone),
      (''path'', PyNone), (''username'', PyNone), (''apikey'', PyNone),
      (''space'', PyNone), (''loglevel'', PyStr ''INFO''),
      (''root_page'', PyNone),
      (''generated_by'', PyNone),
      (''render_mermaid'', PyBool False),
      (''diagram_output_format'', PyStr ''png''),
      (''heading_anchors'', PyBool False),
      (''ignore_invalid_url'', PyBool False), (''local'', PyBool False),
      (''headers'', PyNone), (''webui_links'', PyBool False)] ''generated_by'' = Some PyNone"
proof -
  have p: "parse_args parser_actions
     [Positional ''doc.md'', Optional ''--render-mermaid'' [],
      Optional ''--no-render-mermaid'' [], Optional ''--no-generated-by'' []] Arguments =
     Inr [(''mdpath'', PyStr ''doc.md''), (''domain'', PyNone),
      (''path'', PyNone), (''username'', PyNone), (''apikey'', PyNone),
      (''space'', PyNone), (''loglevel'', PyStr ''INFO''),
      (''root_page'', PyNone),
      (''generated_by'', PyNone),
      (''render_mermaid'', PyBool False),
      (''diagram_output_format'', PyStr ''png''),
      (''heading_anchors'', PyBool False),
      (''ignore_invalid_url'', PyBool False), (''local'', PyBool False),
      (''headers'', PyNone), (''webui_links'', PyBool False)]"
    by code_simp
  note t = last_flag_of_a_pair_wins[OF p]
  from t have "[Positional ''doc.md'', Optional ''--render-mermaid'' [],
      Optional ''--no-render-mermaid'' [], Optional ''--no-generated-by'' []]
       = [Positional ''doc.md'', Optional ''--render-mermaid'' []]
           @ Optional ''--no-render-mermaid'' [] # [Optional ''--no-generated-by'' []]
       \<and> (\<forall>ys. Optional ''--render-mermaid'' ys \<notin> set [Optional ''--no-generated-by'' []])
     \<longrightarrow> getattr [(''mdpath'', PyStr ''doc.md''), (''domain'', PyNone),
      (''path'', PyNone), (''username'', PyNone), (''apikey'', PyNone),
      (''space'', PyNone), (''loglevel'', PyStr ''INFO''),
      (''root_page'', PyNone),
      (''generated_by'', PyNone),
      (''render_mermaid'', PyBool False),
      (''diagram_output_format'', PyStr ''png''),
      (''heading_anchors'', PyBool False),
      (''ignore_invalid_url'', PyBool False), (''local'', PyBool False),
      (''headers'', PyNone), (''webui_links'', PyBool False)] ''render_mermaid'' = Some (PyBool False)"
    by blast
  then have 1: "getattr [(''mdpath'', PyStr ''doc.md''), (''domain'', PyNone),
      (''path'', PyNone), (''username'', PyNone), (''apikey'', PyNone),
      (''space'', PyNone), (''loglevel'', PyStr ''INFO''),
      (''root_page'', PyNone),
      (''generated_by'', PyNone),
      (''render_mermaid'', PyBool False),
      (''diagram_output_format'', PyStr ''png''),
      (''heading_anchors'', PyBool False),
      (''ignore_invalid_url'', PyBool False), (''local'', PyBool False),
      (''headers'', PyNone), (''webui_links'', PyBool False)] ''render_mermaid'' = Some (PyBool False)"
    by simp
  show ?thesis using p 1 by (simp add: getattr_def)
qed

section \<open>The log-level flag\<close>

lemma invalid_loglevel:
  assumes f: "find (\<lambda>x. opt \<in> set (option_strings x)) parser_actions
     = Some (store [''-l'', ''--loglevel''] None (PyStr ''INFO'')
         (Some [''debug'', ''info'', ''warning'', ''error'', ''critical'']))"
    and v: "v \<notin> set [''debug'', ''info'', ''warning'', ''error'', ''critical'']"
  shows "consume_optional parser_actions opt (v # rest) st =
           Inl (ArgumentError [''-l'', ''--loglevel'']
                  [Text ''invalid choice: '', Formatted (PyStr v), Text '' (choose from '',
                   Formatted (PyList [''debug'', ''info'', ''warning'', ''error'', ''critical'']),
                   Text '')''])"
  using v
  by (simp add: consume_optional_def f store_def take_action_def get_values_def check_value_def)

lemma valid_loglevel:
  assumes f: "find (\<lambda>x. opt \<in> set (option_strings x)) parser_actions
     = Some (store [''-l'', ''--loglevel''] None (PyStr ''INFO'')
         (Some [''debug'', ''info'', ''warning'', ''error'', ''critical'']))"
    and v: "v \<in> set [''debug'', ''info'', ''warning'', ''error'', ''critical'']"
  shows "consume_optional parser_actions opt [v] st =
           Inr (st\<lparr>st_namespace := setattr (st_namespace st) ''loglevel'' (PyStr v),
                   st_seen := store [''-l'', ''--loglevel''] None (PyStr ''INFO'')
         (Some [''debug'', ''info'', ''warning'', ''error'', ''critical'']) # st_seen st\<rparr>)"
  using v
  by (simp add: consume_optional_def f store_def take_action_def get_values_def check_value_def
      call_action_def get_dest_def infer_dest_def is_long_option_def)

lemma consume_items_stops:
  assumes "item \<in> set items" and stop: "\<And>s. \<exists>e. consume_items actions [item] s = Inl e"
  shows "\<exists>e. consume_items actions items st = Inl e"
proof -
  from assms(1) obtain pre post where items: "items = pre @ item # post"
    by (auto dest: split_list)
  show ?thesis
  proof (cases "consume_items actions pre st")
    case (Inl e)
    then show ?thesis by (simp add: items consume_items_append)
  next
    case (Inr s1)
    from stop obtain e where e: "consume_items actions [item] s1 = Inl e" by blast
    have "consume_items actions ([item] @ post) s1 = Inl e"
      unfolding consume_items_append by (simp add: e)
    then show ?thesis by (simp add: items consume_items_append[of actions pre] Inr)
  qed
qed

lemma parse_args_stops:
  assumes "consume_items parser_actions argv
             \<lparr>st_namespace = add_defaults parser_actions Arguments,
              st_positionals = [positional ''mdpath''],
              st_seen = [], st_extras = []\<rparr> = Inl e"
  shows "parse_args parser_actions argv Arguments = Inl e"
  by (simp add: parse_args_def positional_actions assms)

lemma main_parse_stop:
  assumes "parse_args parser_actions argv Arguments = Inl e"
  shows "\<exists>n. (n = 0 \<or> n = 2) \<and> main c argv w = (Inl (SystemExit n), w, [])"
  using assms by (cases e) (simp_all add: main_def)

lemma main_argument_error:
  assumes "parse_args parser_actions argv Arguments = Inl (ArgumentError a m)"
  shows "main c argv w = (Inl (SystemExit 2), w, [])"
  using assms by (simp add: main_def)

lemma required_seen:
  assumes "List.member seen (positional ''mdpath'')"
  shows "filter (\<lambda>action. required action \<and> \<not> List.member seen action) parser_actions = []"
  using assms unfolding parser_actions_eq by (simp add: positional_def)

lemma consume_path:
  "consume_positional p
             \<lparr>st_namespace = add_defaults parser_actions Arguments,
              st_positionals = [positional ''mdpath''],
              st_seen = [], st_extras = []\<rparr>
        = Inr \<lparr>st_namespace = setattr (add_defaults parser_actions Arguments) ''mdpath'' (PyStr p),
              st_positionals = [],
              st_seen = [positional ''mdpath''], st_extras = []\<rparr>"
  by (simp add: consume_positional_def take_action_def get_values_def check_value_def
        call_action_def positional_def)

lemma parse_path_loglevel:
  assumes f: "find (\<lambda>x. opt \<in> set (option_strings x)) parser_actions
     = Some (store [''-l'', ''--loglevel''] None (PyStr ''INFO'')
         (Some [''debug'', ''info'', ''warning'', ''error'', ''critical'']))"
  shows "v \<in> set [''debug'', ''info'', ''warning'', ''error'', ''critical''] \<Longrightarrow>
         parse_args parser_actions [Positional p, Optional opt [v]] Arguments =
           Inr (setattr (setattr (add_defaults parser_actions Arguments) ''mdpath'' (PyStr p))
                  ''loglevel'' (PyStr v))"
    and "v \<notin> set [''debug'', ''info'', ''warning'', ''error'', ''critical''] \<Longrightarrow>
         parse_args parser_actions [Positional p, Optional opt [v]] Arguments =
           Inl (ArgumentError [''-l'', ''--loglevel'']
                  [Text ''invalid choice: '', Formatted (PyStr v), Text '' (choose from '',
                   Formatted (PyList [''debug'', ''info'', ''warning'', ''error'', ''critical'']),
                   Text '')''])"
proof -
  assume v: "v \<in> set [''debug'', ''info'', ''warning'', ''error'', ''critical'']"
  have r: "filter (\<lambda>action. required action \<and> \<not> List.member
              [store [''-l'', ''--loglevel''] None (PyStr ''INFO'')
                (Some [''debug'', ''info'', ''warning'', ''error'', ''critical'']),
               positional ''mdpath''] action) parser_actions = []"
    by (rule required_seen) simp
  show "parse_args parser_actions [Positional p, Optional opt [v]] Arguments =
           Inr (setattr (setattr (add_defaults parser_actions Arguments) ''mdpath'' (PyStr p))
                  ''loglevel'' (PyStr v))"
    unfolding parse_args_def positional_actions
    by (simp only: consume_items.simps consume_path sum.case valid_loglevel[OF f v]
        parse_state.simps r list.case if_False refl not_True_eq_False not_False_eq_True simp_thms)
next
  assume v: "v \<notin> set [''debug'', ''info'', ''warning'', ''error'', ''critical'']"
  show "parse_args parser_actions [Positional p, Optional opt [v]] Arguments =
           Inl (ArgumentError [''-l'', ''--loglevel'']
                  [Text ''invalid choice: '', Formatted (PyStr v), Text '' (choose from '',
                   Formatted (PyList [''debug'', ''info'', ''warning'', ''error'', ''critical'']),
                   Text '')''])"
    unfolding parse_args_def positional_actions
    by (simp only: consume_items.simps consume_path sum.case invalid_loglevel[OF f v])
qed

lemma loglevel_default:
  assumes parse: "parse_args parser_actions argv Arguments = Inr ns"
    and no: "\<forall>xs. Optional ''-l'' xs \<notin> set argv \<and> Optional ''--loglevel'' xs \<notin> set argv"
  shows "getattr ns ''loglevel'' = Some (PyStr ''INFO'')"
proof (rule never_written[OF parse])
  show "getattr (add_defaults parser_actions Arguments) ''loglevel'' = Some (PyStr ''INFO'')"
    unfolding initial_namespace by (simp add: getattr_def)
next
  fix opt' args' a'
  assume i: "Optional opt' args' \<in> set argv" and m: "a' \<in> set parser_actions"
    and o: "opt' \<in> set (option_strings a')" and d: "dest a' = ''loglevel''"
  from writers_loglevel m d have "option_strings a' = [''-l'', ''--loglevel'']" by blast
  with o i no have False by auto
  then show "action_class a' = StoreConstAction \<and> const_value a' = PyStr ''INFO''" ..
qed simp

lemma levels_resolved:
  "map (\<lambda>v. logging_getattr (str_upper v) logging_INFO)
     [''INFO'', ''debug'', ''info'', ''warning'', ''error'', ''critical''] = [20, 10, 20, 30, 40, 50]"
  by (simp add: logging_getattr_def logging_levels_def str_upper_def
      ascii_uppercase_def ascii_lowercase_def logging_FATAL_def
      logging_DEBUG_def logging_INFO_def logging_WARN_def logging_WARNING_def logging_ERROR_def
      logging_CRITICAL_def logging_NOTSET_def)

text \<open>
  Claim C3, as the code has it: the choices of the log-level flag are exactly the
  five lower-case names \<^verbatim>\<open>debug\<close>, \<^verbatim>\<open>info\<close>, \<^verbatim>\<open>warning\<close>, \<^verbatim>\<open>error\<close>,
  \<^verbatim>\<open>critical\<close>, compared as they are written. A command line in which the flag
  carries any other value never yields a namespace: the process exits (with status
  2, or with status 0 when an earlier help or version flag got there first) before
  logging is configured or any collaborator is called; alone with a path it is the
  invalid-choice error of the flag. Each of the five values is accepted and stored.
  Without the flag the attribute is the default \<^verbatim>\<open>"INFO"\<close>. The upper-cased
  attribute resolves to the levels 20 (default), 10, 20, 30, 40 and 50.
\<close>

theorem loglevel_closed_enumeration:
  "loglevel_choices = [''debug'', ''info'', ''warning'', ''error'', ''critical'']
   \<and> (\<forall>opt v rest argv.
         (opt = ''-l'' \<or> opt = ''--loglevel'') \<and> v \<notin> set loglevel_choices
          \<and> Optional opt (v # rest) \<in> set argv
        \<longrightarrow> (\<exists>e. parse_args parser_actions argv Arguments = Inl e)
            \<and> (\<exists>n. (n = 0 \<or> n = 2) \<and> main c argv w = (Inl (SystemExit n), w, [])))
   \<and> (\<forall>opt v p.
         (opt = ''-l'' \<or> opt = ''--loglevel'') \<and> v \<notin> set loglevel_choices
        \<longrightarrow> parse_args parser_actions [Positional p, Optional opt [v]] Arguments =
              Inl (ArgumentError [''-l'', ''--loglevel'']
                     [Text ''invalid choice: '', Formatted (PyStr v), Text '' (choose from '',
                      Formatted (PyList loglevel_choices), Text '')''])
            \<and> main c [Positional p, Optional opt [v]] w = (Inl (SystemExit 2), w, []))
   \<and> (\<forall>opt v p.
         (opt = ''-l'' \<or> opt = ''--loglevel'') \<and> v \<in> set loglevel_choices
        \<longrightarrow> (\<exists>ns. parse_args parser_actions [Positional p, Optional opt [v]] Arguments = Inr ns
                  \<and> getattr ns ''loglevel'' = Some (PyStr v)))
   \<and> (\<forall>argv ns.
         parse_args parser_actions argv Arguments = Inr ns
          \<and> (\<forall>xs. Optional ''-l'' xs \<notin> set argv \<and> Optional ''--loglevel'' xs \<notin> set argv)
        \<longrightarrow> getattr ns ''loglevel'' = Some (PyStr ''INFO''))
   \<and> map (\<lambda>v. logging_getattr (str_upper v) logging_INFO) (''INFO'' # loglevel_choices)
        = [20, 10, 20, 30, 40, 50]"
proof -
  let ?five = "[''debug'', ''info'', ''warning'', ''error'', ''critical'']"
  have f: "find (\<lambda>x. opt \<in> set (option_strings x)) parser_actions
     = Some (store [''-l'', ''--loglevel''] None (PyStr ''INFO'') (Some ?five))"
    if "opt = ''-l'' \<or> opt = ''--loglevel''" for opt
    using that find_l find_loglevel by blast
  have 2: "(\<exists>e. parse_args parser_actions argv Arguments = Inl e)
            \<and> (\<exists>n. (n = 0 \<or> n = 2) \<and> main c argv w = (Inl (SystemExit n), w, []))"
    if o: "opt = ''-l'' \<or> opt = ''--loglevel''" and v: "v \<notin> set ?five"
      and i: "Optional opt (v # rest) \<in> set argv" for opt v rest argv
  proof -
    have "\<exists>e. consume_items parser_actions [Optional opt (v # rest)] s = Inl e" for s
      by (simp add: invalid_loglevel[OF f[OF o] v])
    from consume_items_stops[OF i this] obtain e where
      "consume_items parser_actions argv
             \<lparr>st_namespace = add_defaults parser_actions Arguments,
              st_positionals = [positional ''mdpath''],
              st_seen = [], st_extras = []\<rparr> = Inl e"
      by blast
    then have e: "parse_args parser_actions argv Arguments = Inl e" by (rule parse_args_stops)
    from main_parse_stop[OF e, of c w] e show ?thesis by (intro conjI exI[of _ e])
  qed
  have 3: "parse_args parser_actions [Positional p, Optional opt [v]] Arguments =
              Inl (ArgumentError [''-l'', ''--loglevel'']
                     [Text ''invalid choice: '', Formatted (PyStr v), Text '' (choose from '',
                      Formatted (PyList ?five), Text '')''])
            \<and> main c [Positional p, Optional opt [v]] w = (Inl (SystemExit 2), w, [])"
    if o: "opt = ''-l'' \<or> opt = ''--loglevel''" and v: "v \<notin> set ?five" for opt v p
    using parse_path_loglevel(2)[OF f[OF o] v, of p]
      main_argument_error[OF parse_path_loglevel(2)[OF f[OF o] v, of p], of c w] by simp
  have 4: "\<exists>ns. parse_args parser_actions [Positional p, Optional opt [v]] Arguments = Inr ns
                  \<and> getattr ns ''loglevel'' = Some (PyStr v)"
    if o: "opt = ''-l'' \<or> opt = ''--loglevel''" and v: "v \<in> set ?five" for opt v p
    using parse_path_loglevel(1)[OF f[OF o] v] by (simp add: getattr_setattr)
  have 5: "getattr ns ''loglevel'' = Some (PyStr ''INFO'')"
    if "parse_args parser_actions argv Arguments = Inr ns"
      "\<forall>xs. Optional ''-l'' xs \<notin> set argv \<and> Optional ''--loglevel'' xs \<notin> set argv" for argv ns
    using that by (rule loglevel_default)
  show ?thesis
    unfolding loglevel_choices_eq
  proof (intro conjI allI impI; (elim conjE)?)
    show "?five = ?five" ..
  qed (rule 2[THEN conjunct1] 2[THEN conjunct2] 3[THEN conjunct1] 3[THEN conjunct2] 4 5
      levels_resolved; assumption)+
qed

text \<open>The theorem at the command line \<^verbatim>\<open>doc.md --loglevel bogus\<close>.\<close>

theorem loglevel_closed_enumeration_witness:
  "parse_args parser_actions [Positional ''doc.md'', Optional ''--loglevel'' [''bogus'']] Arguments =
     Inl (ArgumentError [''-l'', ''--loglevel'']
            [Text ''invalid choice: '', Formatted (PyStr ''bogus''), Text '' (choose from '',
             Formatted (PyList [''debug'', ''info'', ''warning'', ''error'', ''critical'']),
             Text '')''])"
proof -
  have h: "(''--loglevel'' = ''-l'' \<or> ''--loglevel'' = ''--loglevel'')
        \<and> ''bogus'' \<notin> set loglevel_choices"
    by (simp add: loglevel_choices_eq)
  from loglevel_closed_enumeration[where c = "undefined :: (unit, unit, unit) collaborators" and w = "()",
      THEN conjunct2, THEN conjunct2, THEN conjunct1, rule_format, OF h, THEN conjunct1,
      of "''doc.md''"]
  show ?thesis unfolding loglevel_choices_eq .
qed

text \<open>
  The values \<^verbatim>\<open>warn\<close> and \<^verbatim>\<open>DEBUG\<close> are rejected, and the default that the
  parser stores is the upper-case \<^verbatim>\<open>INFO\<close>.
\<close>

theorem loglevel_warn_and_upper_case_rejected:
  "parse_args parser_actions [Positional ''doc.md'', Optional ''--loglevel'' [''warn'']] Arguments =
     Inl (ArgumentError [''-l'', ''--loglevel'']
            [Text ''invalid choice: '', Formatted (PyStr ''warn''), Text '' (choose from '',
             Formatted (PyList [''debug'', ''info'', ''warning'', ''error'', ''critical'']),
             Text '')''])
   \<and> parse_args parser_actions [Positional ''doc.md'', Optional ''--loglevel'' [''DEBUG'']] Arguments =
     Inl (ArgumentError [''-l'', ''--loglevel'']
            [Text ''invalid choice: '', Formatted (PyStr ''DEBUG''), Text '' (choose from '',
             Formatted (PyList [''debug'', ''info'', ''warning'', ''error'', ''critical'']),
             Text '')''])
   \<and> parse_args parser_actions [Positional ''doc.md''] Arguments =
     Inr [(''mdpath'', PyStr ''doc.md''), (''domain'', PyNone),
      (''path'', PyNone), (''username'', PyNone), (''apikey'', PyNone),
      (''space'', PyNone), (''loglevel'', PyStr ''INFO''),
      (''root_page'', PyNone),
      (''generated_by'', PyStr ''This page has been generated with a tool.''),
      (''render_mermaid'', PyBool True),
      (''diagram_output_format'', PyStr ''png''),
      (''heading_anchors'', PyBool False),
      (''ignore_invalid_url'', PyBool False), (''local'', PyBool False),
      (''headers'', PyNone), (''webui_links'', PyBool False)]"
  by code_simp

end
